theory Spec2Isabelle
  imports Complex_Main "HOL-Library.AList"
begin

section \<open>JavaScript strings and values\<close>

text \<open>
  Strings are lists of characters. \<open>includes_str s n\<close> is \<open>s.includes(n)\<close>: the needle occurs
  as a contiguous run of the haystack.
\<close>

fun startsWith :: \<open>string \<Rightarrow> string \<Rightarrow> bool\<close> where
  \<open>startsWith s [] = True\<close>
| \<open>startsWith [] (c # cs) = False\<close>
| \<open>startsWith (x # xs) (c # cs) = (x = c \<and> startsWith xs cs)\<close>

fun includes_str :: \<open>string \<Rightarrow> string \<Rightarrow> bool\<close> where
  \<open>includes_str [] n = (n = [])\<close>
| \<open>includes_str (x # xs) n = (startsWith (x # xs) n \<or> includes_str xs n)\<close>

text \<open>\<open>join sep xs\<close> is \<open>xs.join(sep)\<close>.\<close>

fun join :: \<open>string \<Rightarrow> string list \<Rightarrow> string\<close> where
  \<open>join sep [] = []\<close>
| \<open>join sep [x] = x\<close>
| \<open>join sep (x # y # ys) = x @ sep @ join sep (y # ys)\<close>

text \<open>
  The values \<open>JSON.parse\<close> can produce. An object is the list of its own properties.
  \<open>JSON.parse\<close> itself belongs to the runtime, so the functions that call it take it as
  the parameter \<open>parse\<close>, where \<open>None\<close> stands for the \<open>SyntaxError\<close> it throws.
\<close>

datatype json =
    JNull
  | JBool bool
  | JNum int
  | JStr string
  | JArr \<open>json list\<close>
  | JObj \<open>(string \<times> json) list\<close>

text \<open>Reading property \<open>k\<close> of a value other than \<open>null\<close>; \<open>None\<close> is \<open>undefined\<close>.\<close>

fun member_of :: \<open>json \<Rightarrow> string \<Rightarrow> json option\<close> where
  \<open>member_of (JObj kvs) k = map_of kvs k\<close>
| \<open>member_of v k = None\<close>

fun truthy :: \<open>json \<Rightarrow> bool\<close> where
  \<open>truthy JNull = False\<close>
| \<open>truthy (JBool b) = b\<close>
| \<open>truthy (JNum n) = (n \<noteq> 0)\<close>
| \<open>truthy (JStr s) = (s \<noteq> [])\<close>
| \<open>truthy (JArr xs) = True\<close>
| \<open>truthy (JObj kvs) = True\<close>

text \<open>
  A thrown value: an \<open>Error\<close> with its message, or anything else, of which the code only
  observes the truthiness and \<open>String(e)\<close>.
\<close>

datatype thrown =
    JsError string
  | NonError bool string

section \<open>Retry policy: \<open>withRetry\<close>\<close>

definition lineTerminator :: \<open>char \<Rightarrow> bool\<close> where
  \<open>lineTerminator c = (c = CHR 0x0A \<or> c = CHR 0x0D)\<close>

text \<open>
  What \<open>.*}\<close> matches right after an opening brace: the longest run of characters without
  a line terminator that ends in a closing brace.
\<close>

definition greedyBody :: \<open>string \<Rightarrow> string option\<close> where
  \<open>greedyBody rest =
     (let seg = takeWhile (\<lambda>c. \<not> lineTerminator c) rest in
      if CHR ''}'' \<in> set seg
      then Some (rev (dropWhile (\<lambda>c. c \<noteq> CHR ''}'') (rev seg)))
      else None)\<close>

text \<open>\<open>e.message.match(/{.*}/)\<close>: the leftmost match, \<open>None\<close> when there is none.\<close>

fun jsonMatch :: \<open>string \<Rightarrow> string option\<close> where
  \<open>jsonMatch [] = None\<close>
| \<open>jsonMatch (c # cs) =
     (if c = CHR ''{''
      then (case greedyBody cs of Some b \<Rightarrow> Some (c # b) | None \<Rightarrow> jsonMatch cs)
      else jsonMatch cs)\<close>

text \<open>
  The structured check inside the inner \<open>try\<close>. A \<open>SyntaxError\<close> of \<open>JSON.parse\<close> and
  the \<open>TypeError\<close> of reading \<open>.error\<close> of \<open>null\<close> are both swallowed by the inner
  \<open>catch\<close>, leaving the flag false.
\<close>

definition structuredRateLimit :: \<open>(string \<Rightarrow> json option) \<Rightarrow> string \<Rightarrow> bool\<close> where
  \<open>structuredRateLimit parse msg =
     (case jsonMatch msg of
        None \<Rightarrow> False
      | Some m \<Rightarrow>
          (case parse m of
             None \<Rightarrow> False
           | Some JNull \<Rightarrow> False
           | Some errorBody \<Rightarrow>
               (case member_of errorBody ''error'' of
                  None \<Rightarrow> False
                | Some err \<Rightarrow>
                    truthy err \<and>
                    (member_of err ''code'' = Some (JNum 429) \<or>
                     member_of err ''status'' = Some (JStr ''RESOURCE_EXHAUSTED'')))))\<close>

definition isRateLimitError :: \<open>(string \<Rightarrow> json option) \<Rightarrow> thrown \<Rightarrow> bool\<close> where
  \<open>isRateLimitError parse e =
     (case e of
        NonError t s \<Rightarrow> False
      | JsError msg \<Rightarrow>
          (let structured = structuredRateLimit parse msg in
           if \<not> structured \<and>
              (includes_str msg ''429'' \<or> includes_str msg ''RESOURCE_EXHAUSTED'' \<or>
               includes_str msg ''rate limit'')
           then True
           else structured))\<close>

definition rateLimitExceededMessage :: \<open>string\<close> where
  \<open>rateLimitExceededMessage =
     ''The AI service is temporarily unavailable due to high demand. Please try again in a few moments. (Rate limit exceeded)''\<close>

definition unknownRetryMessage :: \<open>string\<close> where
  \<open>unknownRetryMessage = ''An unknown error occurred after multiple retries.''\<close>

datatype 'a outcome =
    Fulfilled 'a
  | Rejected thrown

text \<open>
  What one run of \<open>withRetry\<close> did: how it settled, how many times it invoked \<open>apiCall\<close>,
  and the delays (in milliseconds) it slept, in order.
\<close>

record 'a retry_run =
  result :: \<open>thrown + 'a\<close>
  invocations :: nat
  delays :: \<open>real list\<close>

text \<open>
  The \<open>for\<close> loop from a given \<open>attempt\<close> on. \<open>apiCall k\<close> is how the invocation made
  in iteration \<open>k\<close> settles, and \<open>jitter k\<close> is the value \<open>Math.random()\<close> returns there.
  \<open>maxRetries\<close> is a natural number (every caller leaves it at its default, 5); when
  the loop ends without having returned or thrown, \<open>lastError || new Error(...)\<close> is
  thrown.
\<close>

function withRetry_from ::
  \<open>(string \<Rightarrow> json option) \<Rightarrow> (nat \<Rightarrow> 'a outcome) \<Rightarrow> (nat \<Rightarrow> real) \<Rightarrow>
   nat \<Rightarrow> real \<Rightarrow> real \<Rightarrow> nat \<Rightarrow> thrown option \<Rightarrow> 'a retry_run\<close> where
  \<open>withRetry_from parse apiCall jitter maxRetries initialDelay backoffFactor attempt lastError =
     (if attempt < maxRetries then
        (case apiCall attempt of
           Fulfilled v \<Rightarrow> \<lparr>result = Inr v, invocations = 1, delays = []\<rparr>
         | Rejected e \<Rightarrow>
             if isRateLimitError parse e then
               if attempt = maxRetries - 1 then
                 \<lparr>result = Inl (JsError rateLimitExceededMessage), invocations = 1, delays = []\<rparr>
               else
                 (let r = withRetry_from parse apiCall jitter maxRetries initialDelay
                            backoffFactor (attempt + 1) (Some e)
                  in r\<lparr>invocations := Suc (invocations r),
                        delays := (initialDelay * backoffFactor ^ attempt + jitter attempt * 1000)
                                  # delays r\<rparr>)
             else \<lparr>result = Inl e, invocations = 1, delays = []\<rparr>)
      else
        \<lparr>result = Inl (case lastError of
                         None \<Rightarrow> JsError unknownRetryMessage
                       | Some (JsError m) \<Rightarrow> JsError m
                       | Some (NonError t s) \<Rightarrow>
                           if t then NonError t s else JsError unknownRetryMessage),
         invocations = 0, delays = []\<rparr>)\<close>
  by pat_completeness auto
termination
  by (relation \<open>measure (\<lambda>(parse, apiCall, jitter, maxRetries, initialDelay, backoffFactor,
                           attempt, lastError). maxRetries - attempt)\<close>) auto

definition withRetry ::
  \<open>(string \<Rightarrow> json option) \<Rightarrow> (nat \<Rightarrow> 'a outcome) \<Rightarrow> (nat \<Rightarrow> real) \<Rightarrow>
   nat \<Rightarrow> real \<Rightarrow> real \<Rightarrow> 'a retry_run\<close> where
  \<open>withRetry parse apiCall jitter maxRetries initialDelay backoffFactor =
     withRetry_from parse apiCall jitter maxRetries initialDelay backoffFactor 0 None\<close>

section \<open>Serial job queue: \<open>enqueue\<close> and \<open>processQueue\<close>\<close>

text \<open>
  The module state is the array \<open>requestQueue\<close> and the flag \<open>isProcessing\<close>. The model
  adds what the event loop holds: the units of work whose promise is pending
  (\<open>inFlight\<close>), the due times of the pending \<open>setTimeout(processQueue, 1000)\<close>
  (\<open>timers\<close>, in registration order, which is also their firing order), and a clock in
  milliseconds. Jobs are numbered in submission order: job \<open>j\<close> is the one handed to
  the \<open>(j+1)\<close>-th call of \<open>enqueue\<close>. The \<open>trace\<close> records when a unit of work is
  started, when it invokes the network call (its first attempt and every retry of
  \<open>withRetry\<close>), and when it settles. Only a unit of work in flight can retry or
  settle: its closure is invoked by its task and nowhere else, and \<open>withRetry\<close> has
  returned or thrown once the unit has settled.
\<close>

datatype kind = Start | Attempt | Settlement

datatype entry = Entry (kindOf: kind) (jobOf: nat) (timeOf: nat)

record queueState =
  requestQueue :: \<open>nat list\<close>
  isProcessing :: bool
  inFlight :: \<open>nat list\<close>
  timers :: \<open>nat list\<close>
  now :: nat
  submitted :: nat
  trace :: \<open>entry list\<close>

definition initialQueue :: \<open>queueState\<close> where
  \<open>initialQueue =
     \<lparr>requestQueue = [], isProcessing = False, inFlight = [], timers = [], now = 0,
      submitted = 0, trace = []\<rparr>\<close>

text \<open>
  \<open>processQueue\<close>: calling the task starts the unit of work, whose first attempt is
  invoked at once; the task then waits for the unit to settle.
\<close>

definition processQueue :: \<open>queueState \<Rightarrow> queueState\<close> where
  \<open>processQueue s =
     (if isProcessing s \<or> length (requestQueue s) = 0 then s
      else
        (case requestQueue s of
           [] \<Rightarrow> s\<lparr>isProcessing := True\<rparr>
         | nextTask # rest \<Rightarrow>
             s\<lparr>isProcessing := True,
               requestQueue := rest,
               inFlight := inFlight s @ [nextTask],
               trace := trace s @ [Entry Start nextTask (now s), Entry Attempt nextTask (now s)]\<rparr>))\<close>

text \<open>\<open>enqueue\<close>: push the task, then \<open>processQueue()\<close>.\<close>

definition enqueue :: \<open>queueState \<Rightarrow> queueState\<close> where
  \<open>enqueue s =
     processQueue (s\<lparr>requestQueue := requestQueue s @ [submitted s],
                      submitted := Suc (submitted s)\<rparr>)\<close>

text \<open>
  The rest of the task, run when the unit of work \<open>j\<close> settles (resolved or rejected):
  the \<open>finally\<close> block clears the flag and registers the timer.
\<close>

definition settle :: \<open>nat \<Rightarrow> queueState \<Rightarrow> queueState\<close> where
  \<open>settle j s =
     (if j \<in> set (inFlight s) then
        s\<lparr>inFlight := removeAll j (inFlight s),
          isProcessing := False,
          timers := timers s @ [now s + 1000],
          trace := trace s @ [Entry Settlement j (now s)]\<rparr>
      else s)\<close>

text \<open>A retry inside the unit of work \<open>j\<close>: \<open>withRetry\<close> invokes the call again.\<close>

definition retry :: \<open>nat \<Rightarrow> queueState \<Rightarrow> queueState\<close> where
  \<open>retry j s =
     (if j \<in> set (inFlight s) then s\<lparr>trace := trace s @ [Entry Attempt j (now s)]\<rparr> else s)\<close>

text \<open>The oldest timer fires once it is due, and runs \<open>processQueue\<close>.\<close>

definition fire :: \<open>queueState \<Rightarrow> queueState\<close> where
  \<open>fire s =
     (case timers s of
        [] \<Rightarrow> s
      | due # later \<Rightarrow> if due \<le> now s then processQueue (s\<lparr>timers := later\<rparr>) else s)\<close>

datatype event =
    Enqueue
  | Retry nat
  | Settle nat
  | Fire
  | Advance nat

fun step :: \<open>queueState \<Rightarrow> event \<Rightarrow> queueState\<close> where
  \<open>step s Enqueue = enqueue s\<close>
| \<open>step s (Retry j) = retry j s\<close>
| \<open>step s (Settle j) = settle j s\<close>
| \<open>step s Fire = fire s\<close>
| \<open>step s (Advance d) = s\<lparr>now := now s + d\<rparr>\<close>

definition run :: \<open>event list \<Rightarrow> queueState\<close> where
  \<open>run evs = foldl step initialQueue evs\<close>


section \<open>Request parts and the prompt synthesizer\<close>

record ImageFile =
  base64 :: string
  mimeType :: string
  previewUrl :: string

text \<open>A block of a request: \<open>{ text }\<close> or \<open>{ inlineData: { data, mimeType } }\<close>.\<close>

datatype part =
    TextPart string
  | InlineDataPart string string

definition fileToGenerativePart :: \<open>ImageFile \<Rightarrow> part\<close> where
  \<open>fileToGenerativePart file = InlineDataPart (base64 file) (mimeType file)\<close>

datatype SubjectMode = single | multiple

datatype BackgroundMode = describe | upload | random

text \<open>
  The parameter object of \<open>generateStudioPhoto\<close>. The string-literal union types whose
  values are spliced into the prompt stay strings. The three influence values and the
  colour temperature are the integers the sliders produce; \<open>exposure\<close> is counted in
  tenths of an EV (the slider moves in steps of 0.5), so that \<open>toFixed(1)\<close> is exact.
\<close>

record GenerateStudioPhotoParams =
  sourceImage :: ImageFile
  subjectMode :: SubjectMode
  subjectPrompt :: string
  faceReferenceImage :: \<open>ImageFile option\<close>
  dressImage :: \<open>ImageFile option\<close>
  dressPrompt :: string
  objectImage :: \<open>ImageFile option\<close>
  backgroundImage :: \<open>ImageFile option\<close>
  backgroundPrompt :: string
  backgroundMode :: BackgroundMode
  stylePrompt :: string
  artReferenceImage :: \<open>ImageFile option\<close>
  artReferencePrompt :: string
  artStyleInfluence :: int
  subjectInfluence :: int
  surprise :: int
  integrationAnalysis :: string
  lightingStyle :: string
  perspectiveDistance :: string
  perspectiveAngle :: string
  perspectivePOV :: string
  perspectiveMovement :: string
  perspectiveLens :: string
  useArtReferenceLighting :: bool
  useArtReferenceSkin :: bool
  flyerText :: string
  thumbnailText :: string
  skinTexture :: string
  highlightStyle :: string
  highlightIntensity :: string
  aperture :: string
  shutterSpeed :: string
  iso :: string
  focusMode :: string
  manualFocusSubject :: string
  exposure :: int
  lensType :: string
  shootingMode :: string
  lightingTemperature :: int

text \<open>Decimal rendering of the numbers spliced into templates.\<close>

definition digitChar :: \<open>nat \<Rightarrow> char\<close> where
  \<open>digitChar d = ''0123456789'' ! d\<close>

fun showNat :: \<open>nat \<Rightarrow> string\<close> where
  \<open>showNat n = (if n < 10 then [digitChar n] else showNat (n div 10) @ [digitChar (n mod 10)])\<close>

definition showInt :: \<open>int \<Rightarrow> string\<close> where
  \<open>showInt i = (if i < 0 then ''-'' @ showNat (nat (- i)) else showNat (nat i))\<close>

text \<open>\<open>toFixed(1)\<close> of a value given in tenths.\<close>

definition toFixed1 :: \<open>int \<Rightarrow> string\<close> where
  \<open>toFixed1 t =
     (if t < 0 then ''-'' else []) @ showNat (nat \<bar>t\<bar> div 10) @ ''.'' @ showNat (nat \<bar>t\<bar> mod 10)\<close>

text \<open>\<open>toLowerCase\<close> on the ASCII letters, which is all the focus modes contain.\<close>

definition lowerChar :: \<open>char \<Rightarrow> char\<close> where
  \<open>lowerChar c =
     (case map_of (zip ''ABCDEFGHIJKLMNOPQRSTUVWXYZ'' ''abcdefghijklmnopqrstuvwxyz'') c of
        Some l \<Rightarrow> l
      | None \<Rightarrow> c)\<close>

definition toLowerCase :: \<open>string \<Rightarrow> string\<close> where
  \<open>toLowerCase s = map lowerChar s\<close>

text \<open>\<open>filter(Boolean)\<close> on an array of strings, \<open>null\<close> being modelled by the empty string.\<close>

definition filterBoolean :: \<open>string list \<Rightarrow> string list\<close> where
  \<open>filterBoolean xs = filter (\<lambda>s. s \<noteq> []) xs\<close>

definition flyerInstructions :: \<open>GenerateStudioPhotoParams \<Rightarrow> string\<close> where
  \<open>flyerInstructions p =
     ''You are an expert graphic designer creating a professional promotional flyer.\<newline>- **Primary Task:** Your main goal is to create a visually appealing flyer.\<newline>- **Subject Integration:** The provided image contains the main subject(s). You MUST perfectly preserve their identity and creatively integrate them into the flyer design.\<newline>- **Text Content:** The flyer MUST include the following text. Find a creative and legible way to display it: "'' @ flyerText p @ ''".\<newline>- **Style:** The overall style should be professional, modern, and eye-catching.\<newline>- **Output:** The final image MUST be a cohesive, high-quality flyer. This is a critical instruction.''\<close>

definition thumbnailInstructions :: \<open>GenerateStudioPhotoParams \<Rightarrow> string\<close> where
  \<open>thumbnailInstructions p =
     ''You are a professional YouTube thumbnail designer. Your goal is to create a compelling, high-energy, clickable thumbnail.\<newline>- **Primary Task:** Create an engaging thumbnail that grabs attention.\<newline>- **Subject Integration:** The provided image is the main subject(s). You MUST preserve their identity and make them the focal point of the thumbnail.\<newline>- **Text Content:** The thumbnail MUST include this text, making it bold, readable, and exciting: "'' @ thumbnailText p @ ''".\<newline>- **Style:** The design should be eye-catching, high-contrast, and follow modern social media trends.\<newline>- **Output:** The final image must be a high-quality thumbnail. This is a critical instruction.''\<close>

definition subjectNoun :: \<open>GenerateStudioPhotoParams \<Rightarrow> string\<close> where
  \<open>subjectNoun p = (if subjectMode p = single then ''person'' else ''person(s)'')\<close>

definition subjectNounPlural :: \<open>GenerateStudioPhotoParams \<Rightarrow> string\<close> where
  \<open>subjectNounPlural p = (if subjectMode p = single then ''subject'' else ''subjects'')\<close>

definition masterPrompt :: \<open>string\<close> where
  \<open>masterPrompt =
     ''You are an expert AI photo editor and virtual photographer. Your goal is to create a single, high-quality image based on a set of input images and text instructions. You will be provided with images labeled like [Subject], [Art Style], etc. You must use these labels to understand which image to use for which purpose.''\<close>

definition subjectInfluenceDirective :: \<open>GenerateStudioPhotoParams \<Rightarrow> string\<close> where
  \<open>subjectInfluenceDirective p =
     ''- **CRITICAL - SUBJECT INFLUENCE '' @ showInt (subjectInfluence p) @ ''/100:** You MUST retain the subject's identity. A value of 100 requires a perfect, photorealistic match to the original '' @ subjectNoun p @ ''. A lower value allows for more artistic interpretation of their features to better match the art style, while still ensuring the '' @ subjectNoun p @ '' is/are recognizable. This is your most important instruction.''\<close>

definition preserveIdentityDirective :: \<open>GenerateStudioPhotoParams \<Rightarrow> string\<close> where
  \<open>preserveIdentityDirective p =
     ''- **CRITICAL:** You MUST perfectly preserve their facial features, structure, and identity. The final image must be unmistakably the same '' @ subjectNoun p @ ''.''\<close>

definition subjectInstructions :: \<open>GenerateStudioPhotoParams \<Rightarrow> string\<close> where
  \<open>subjectInstructions p =
     join ''\<newline>'' (filterBoolean
       [''\<newline>**1. SUBJECT & IDENTITY (PARAMOUNT PRIORITY)**'',
        ''- The '' @ subjectNoun p @ '' in the [Subject] image is/are your primary subject.'',
        (if artReferenceImage p \<noteq> None then subjectInfluenceDirective p
         else preserveIdentityDirective p),
        (if subjectPrompt p \<noteq> [] then
           ''- Apply these modifications to the '' @ subjectNounPlural p @ '', while maintaining their identity: "'' @ subjectPrompt p @ ''".''
         else []),
        (if faceReferenceImage p \<noteq> None then
           ''- **CRITICAL FACE OVERRIDE:** The [Face Reference] image provides the definitive likeness of the subject. Use this image to ensure the face is a perfect match, overriding the face from the [Subject] image if necessary.''
         else [])])\<close>

definition artStylePrompts :: \<open>GenerateStudioPhotoParams \<Rightarrow> string list\<close> where
  \<open>artStylePrompts p =
     [''\<newline>**2. ART STYLE APPLICATION**'',
      ''- Analyze the [Art Style] image. Your task is to re-imagine the subject(s) in this distinct artistic style.'',
      (if artReferencePrompt p \<noteq> [] then
         ''- The style is described as: "'' @ artReferencePrompt p @ ''".''
       else []),
      ''- **Style Influence:** Apply the reference style with an influence level of **'' @ showInt (artStyleInfluence p) @ ''/100**. A value of 100 means a complete transformation into the reference style, while still preserving the subject's recognizable identity.'',
      ''- **Creative Freedom (Surprise):** You have a creative freedom level of **'' @ showInt (surprise p) @ ''/100**. A value of 0 means strict adherence to instructions; 100 grants maximum artistic liberty.'',
      (if integrationAnalysis p \<noteq> [] then
         ''- **Execution Plan:** Follow this user-approved plan: "'' @ integrationAnalysis p @ ''"''
       else [])]
     @ (if useArtReferenceSkin p then
          [''- **CRITICAL - SKIN & HIGHLIGHT MATCH:** Analyze the skin texture and highlights on the person in the [Art Style] image. Apply this exact skin finish to the main subject(s), but **you MUST preserve the subject's original skin tone and color**. This is a texture/finish matching instruction only.'']
        else [])
     @ (if useArtReferenceLighting p then
          [''- **CRITICAL - LIGHTING MATCH:** Apply the lighting from the [Art Style] image (color, shadows, direction) perfectly to the subject(s).'']
        else [])
     @ [''- **IMPORTANT:** DO NOT simply copy or output the [Art Style] image. The final image must be a **new creation** that **fuses** the subject(s) from the [Subject] image with the style of the [Art Style] image.'']\<close>

definition compoInstructions :: \<open>GenerateStudioPhotoParams \<Rightarrow> string list\<close> where
  \<open>compoInstructions p =
     (if dressImage p \<noteq> None then
        [''\<newline>**Outfit:**\<newline>- From the [Outfit] image, you must extract **ONLY THE CLOTHING/OUTFIT**.\<newline>- **STRICTLY IGNORE EVERYTHING ELSE** in the [Outfit] image: the person, the background, the pose, accessories, etc. Your only focus is the **GARMENT** itself.\<newline>- Apply this extracted outfit naturally onto the main subject(s).'']
        @ (if dressPrompt p \<noteq> [] then
             [''- Apply these modifications to the outfit: "'' @ dressPrompt p @ ''".'']
           else [])
      else [])
     @ (if objectImage p \<noteq> None then
          [''\<newline>**Object:**\<newline>- From the [Object] image, identify any non-clothing objects and incorporate them naturally into the scene with the subject(s).'']
        else [])
     @ (if backgroundMode p = upload \<and> backgroundImage p \<noteq> None then
          [''\<newline>**Background:**\<newline>- Use the [Background] image as the new background.'']
          @ (if backgroundPrompt p \<noteq> [] then
               [''- Apply these modifications to the background: "'' @ backgroundPrompt p @ ''".'']
             else [])
        else if backgroundMode p = describe \<and> backgroundPrompt p \<noteq> [] then
          [''\<newline>**Background:**\<newline>- Create a new background based on this description: "'' @ backgroundPrompt p @ ''".'']
        else if backgroundMode p = random then
          [''\<newline>**Background:**\<newline>- Generate a random, photorealistic, professional studio background that complements the subject(s).'']
        else [])\<close>

definition finalTouches :: \<open>GenerateStudioPhotoParams \<Rightarrow> string list\<close> where
  \<open>finalTouches p =
     (if lightingStyle p \<noteq> [] \<and> lightingStyle p \<noteq> ''None'' \<and> \<not> useArtReferenceLighting p then
        [''- **CRITICAL LIGHTING:** Apply a professional "'' @ lightingStyle p @ ''" lighting setup to the entire scene. This must define the mood and shadows.'']
      else [])
     @ (if \<not> useArtReferenceSkin p then
          (if skinTexture p = ''Professional Dodge & Burn'' then
             [''- **SKIN RETOUCHING:** Apply a professional 'dodge and burn' retouching technique to the subject's skin to enhance contours, add depth, and create a sculpted, high-end look.'']
           else if skinTexture p = ''Professional Frequency Separation'' then
             [''- **SKIN RETOUCHING:** Apply a professional 'frequency separation' retouching technique. This involves separating skin texture from color/tone to perfectly smooth blemishes and transitions while preserving hyper-realistic skin texture.'']
           else if skinTexture p \<noteq> [] \<and> skinTexture p \<noteq> ''None'' then
             [''- **SKIN TEXTURE:** Render the subject's skin with a "'' @ skinTexture p @ ''" texture. Ensure it looks natural and maintains the original skin tone under consistent lighting.'']
           else [])
          @ (if highlightStyle p \<noteq> [] \<and> highlightStyle p \<noteq> ''None'' \<and>
                highlightIntensity p \<noteq> [] \<and> highlightIntensity p \<noteq> ''None'' then
               [''- **SKIN HIGHLIGHTS:** Apply "'' @ highlightStyle p @ ''" highlights to the skin at a "'' @ highlightIntensity p @ ''" intensity.'']
             else [])
        else [])
     @ (if stylePrompt p \<noteq> [] then
          [''- **ADDITIONAL EFFECTS:** Render the final image incorporating this style: "'' @ stylePrompt p @ ''".'']
        else [])\<close>

definition tempDesc :: \<open>GenerateStudioPhotoParams \<Rightarrow> string\<close> where
  \<open>tempDesc p =
     (if lightingTemperature p < 4000 then ''warm, tungsten-like''
      else if lightingTemperature p > 6500 then ''cool, overcast-like''
      else ''neutral daylight'')\<close>

definition cameraDetails :: \<open>GenerateStudioPhotoParams \<Rightarrow> string list\<close> where
  \<open>cameraDetails p =
     (if shootingMode p \<noteq> [] \<and> shootingMode p \<noteq> ''None'' then [''Shooting Style: '' @ shootingMode p] else [])
     @ (if lensType p \<noteq> [] \<and> lensType p \<noteq> ''None'' then [''Lens: '' @ lensType p] else [])
     @ (if perspectiveDistance p \<noteq> [] \<and> perspectiveDistance p \<noteq> ''None'' then
          [''Framing/Distance: '' @ perspectiveDistance p] else [])
     @ (if perspectiveAngle p \<noteq> [] \<and> perspectiveAngle p \<noteq> ''None'' then
          [''Angle/Tilt: '' @ perspectiveAngle p] else [])
     @ (if perspectivePOV p \<noteq> [] \<and> perspectivePOV p \<noteq> ''None'' then
          [''Point of View: '' @ perspectivePOV p] else [])
     @ (if perspectiveMovement p \<noteq> [] \<and> perspectiveMovement p \<noteq> ''None'' then
          [''Camera Movement: '' @ perspectiveMovement p] else [])
     @ (if perspectiveLens p \<noteq> [] \<and> perspectiveLens p \<noteq> ''None'' then
          [''Lens/Creative Style: '' @ perspectiveLens p] else [])
     @ (if aperture p \<noteq> [] \<and> aperture p \<noteq> ''None'' then
          [''Aperture: '' @ aperture p @ '' (a low f-number like f/1.8 creates a very blurry background; a high f-number like f/16 keeps everything in focus)'']
        else [])
     @ (if shutterSpeed p \<noteq> [] \<and> shutterSpeed p \<noteq> ''None'' then
          [''Shutter Speed: '' @ shutterSpeed p @ '' (a slow speed like 1s can create motion blur; a fast speed like 1/1000s freezes action)'']
        else [])
     @ (if iso p \<noteq> [] \<and> iso p \<noteq> ''None'' then
          [''ISO: '' @ iso p @ '' (a high ISO like 6400 introduces noticeable film grain; a low ISO like 100 is clean)'']
        else [])
     @ [''Color Temperature: '' @ showInt (lightingTemperature p) @ ''K ('' @ tempDesc p @ '' light)'']
     @ (if focusMode p = ''Manual'' \<and> manualFocusSubject p \<noteq> [] then
          [''Focus: Manually set the sharpest point of focus on "'' @ manualFocusSubject p @ ''"'']
        else if focusMode p \<noteq> ''Auto'' \<and> focusMode p \<noteq> ''Manual'' then
          [''Focus: Set the sharpest point of focus on the '' @ toLowerCase (focusMode p)]
        else [])
     @ (if exposure p \<noteq> 0 then
          [''Exposure Compensation: '' @ (if 0 < exposure p then ''+'' else []) @ toFixed1 (exposure p) @ '' EV ('' @ (if 0 < exposure p then ''brighter'' else ''darker'') @ '' image)'']
        else [])\<close>

definition cameraSection :: \<open>GenerateStudioPhotoParams \<Rightarrow> string\<close> where
  \<open>cameraSection p =
     ''\<newline>**5. CAMERA & LENS SETTINGS**\<newline>- **CRITICAL:** Simulate a professional camera with these settings: '' @ join ''; '' (cameraDetails p) @ ''.''\<close>

definition finalOutputRequirements :: \<open>string\<close> where
  \<open>finalOutputRequirements =
     ''\<newline>**FINAL OUTPUT REQUIREMENTS**\<newline>- Combine all elements into a single, cohesive, high-quality image, prioritizing the subject's identity above all.''\<close>

text \<open>The array \<open>instructionSet\<close> as it stands when the parts are assembled.\<close>

definition instructionSet :: \<open>GenerateStudioPhotoParams \<Rightarrow> string list\<close> where
  \<open>instructionSet p =
     [masterPrompt, subjectInstructions p]
     @ (if artReferenceImage p \<noteq> None then
          [join ''\<newline>'' (filterBoolean (artStylePrompts p))]
        else [])
     @ (if length (compoInstructions p) > 0 then
          [''\<newline>**3. COMPOSITION & SCENE**'' @ join ''\<newline>'' (compoInstructions p)]
        else [])
     @ (if length (finalTouches p) > 0 then
          [''\<newline>**4. FINAL STYLIZATION**\<newline>'' @ join ''\<newline>'' (finalTouches p)]
        else [])
     @ (if length (cameraDetails p) > 0 then [cameraSection p] else [])
     @ [finalOutputRequirements]\<close>

definition imageBlock :: \<open>string \<Rightarrow> ImageFile option \<Rightarrow> part list\<close> where
  \<open>imageBlock label img =
     (case img of
        None \<Rightarrow> []
      | Some file \<Rightarrow> [TextPart label, fileToGenerativePart file])\<close>

text \<open>The array \<open>parts\<close> that \<open>generateStudioPhoto\<close> sends.\<close>

definition generateStudioPhoto_parts :: \<open>GenerateStudioPhotoParams \<Rightarrow> part list\<close> where
  \<open>generateStudioPhoto_parts p =
     (let isFlyerDesign = includes_str (stylePrompt p) ''Flyer Design'';
          isThumbnailDesign = includes_str (stylePrompt p) ''Thumbnail Design''
      in if isFlyerDesign then
           [TextPart (flyerInstructions p), fileToGenerativePart (sourceImage p)]
         else if isThumbnailDesign then
           [TextPart (thumbnailInstructions p), fileToGenerativePart (sourceImage p)]
         else
           [TextPart (join ''\<newline>'' (instructionSet p)),
            TextPart ''This is the [Subject] image:'',
            fileToGenerativePart (sourceImage p)]
           @ imageBlock ''This is the [Face Reference] image:'' (faceReferenceImage p)
           @ imageBlock ''This is the [Art Style] image:'' (artReferenceImage p)
           @ imageBlock ''This is the [Outfit] image:'' (dressImage p)
           @ imageBlock ''This is the [Object] image:'' (objectImage p)
           @ (if backgroundMode p = upload then
                imageBlock ''This is the [Background] image:'' (backgroundImage p)
              else []))\<close>

text \<open>The parts of the five single-template operations.\<close>

definition inpaintImage_parts :: \<open>ImageFile \<Rightarrow> ImageFile \<Rightarrow> string \<Rightarrow> part list\<close> where
  \<open>inpaintImage_parts sourceImg maskImage prompt =
     [TextPart (''You are an expert AI photo editor. The user has provided an image, a mask, and a prompt. Your task is to regenerate ONLY the masked area of the image based on the prompt: "'' @ prompt @ ''". The masked area is indicated in the second image. The rest of the image must remain unchanged. Seamlessly blend the new content with the existing image.''),
      fileToGenerativePart sourceImg,
      fileToGenerativePart maskImage]\<close>

definition describeImage_parts :: \<open>ImageFile \<Rightarrow> part list\<close> where
  \<open>describeImage_parts img =
     [TextPart ''Briefly describe the person or people in this photo in one short sentence, focusing on key visual features for an AI editor. For example: "A young woman with blonde hair smiling." or "A group of friends posing for a photo."'',
      fileToGenerativePart img]\<close>

definition LIGHTING_STYLES :: \<open>string list\<close> where
  \<open>LIGHTING_STYLES =
     [''None'', ''Three-Point Lighting'', ''Rembrandt Lighting'', ''Split Lighting'',
      ''Loop Lighting'', ''Butterfly Lighting'', ''High-Key Lighting'', ''Low-Key Lighting'',
      ''Motivated Lighting'', ''Natural / Ambient Lighting'']\<close>

definition styleList :: \<open>string\<close> where
  \<open>styleList = join ''", "'' (filter (\<lambda>s. s \<noteq> ''None'') LIGHTING_STYLES)\<close>

definition analyzeArtReference_parts :: \<open>ImageFile \<Rightarrow> ImageFile \<Rightarrow> part list\<close> where
  \<open>analyzeArtReference_parts sourceImg artReferenceImg =
     [TextPart (''You are an expert AI artist and prompt engineer analyzing two images: a [SUBJECT IMAGE] and an [ART STYLE IMAGE].\<newline>Your task is to provide a complete analysis in a single JSON response.\<newline>\<newline>1.  **Analyze Art Style**: In one concise sentence, describe the artistic style of the [ART STYLE IMAGE]. Focus on medium, technique, mood, and color palette.\<newline>2.  **Create Integration Plan**: In one or two concise sentences, describe your creative plan to integrate the subject person(s) into the art reference's style, maintaining the subject's identity.\<newline>3.  **Identify Lighting Style**: Analyze the lighting in the [ART STYLE IMAGE]. Classify it into ONE of the following categories: "'' @ styleList @ ''". If no specific style fits, choose the closest one.\<newline>4.  **Generate Action Prompt**:\<newline>    a. First, analyze the [ART STYLE IMAGE] and identify the primary action, pose, and emotion of the person.\<newline>    b. Then, write a new, single, detailed, and evocative sentence describing the person/people from the [SUBJECT IMAGE] performing that exact action, pose, and emotion.\<newline>\<newline>Provide your response strictly in the requested JSON format, with no extra text or explanations.''),
      TextPart ''This is the [SUBJECT IMAGE]:'',
      fileToGenerativePart sourceImg,
      TextPart ''This is the [ART STYLE IMAGE]:'',
      fileToGenerativePart artReferenceImg]\<close>

definition swapFace_parts :: \<open>ImageFile \<Rightarrow> ImageFile \<Rightarrow> part list\<close> where
  \<open>swapFace_parts targetImage faceSourceImage =
     [TextPart ''You are a world-class AI digital artist specializing in hyperrealistic and style-consistent portrait recreation. Your work is for artistic and creative purposes only.\<newline>\<newline>**Your Mission:**\<newline>Artistically blend the facial identity from the **FACE SOURCE IMAGE** onto the subject in the **TARGET IMAGE**.\<newline>\<newline>**TARGET IMAGE (First Image):** This is the main image with the style, lighting, and composition that MUST be preserved.\<newline>**FACE SOURCE IMAGE (Second Image):** This image provides the facial identity (features, structure, expression) that you must transfer.\<newline>\<newline>**Critical Directives (Non-negotiable):**\<newline>1.  **Identity Preservation (Highest Priority):** The final portrait must be UNMISTAKABLY recognizable as the person from the FACE SOURCE IMAGE.\<newline>2.  **Artistic Style Matching:** The recreated face MUST perfectly adopt the complete artistic style of the TARGET IMAGE. This includes:\<newline>    - **Lighting:** Match the direction, color, and intensity of the light and shadows.\<newline>    - **Color Grading:** Apply the exact same color palette and tone.\<newline>    - **Texture:** Replicate any textures present, such as skin texture, paint strokes, film grain, or digital artifacts.\<newline>    - **Effects:** If the TARGET IMAGE is a painting, cartoon, sketch, etc., the new face MUST be rendered in that same style.\<newline>3.  **Seamless Integration:** The new face must blend FLAWLESSLY with the head, hair, and neck of the subject in the TARGET IMAGE. There should be no visible seams or artifacts.\<newline>\<newline>Do not alter the background, clothing, or body of the TARGET IMAGE. Your only task is this high-fidelity, style-aware portrait recreation.'',
      fileToGenerativePart targetImage,
      fileToGenerativePart faceSourceImage]\<close>

definition manipulateScene_parts :: \<open>ImageFile \<Rightarrow> string \<Rightarrow> part list\<close> where
  \<open>manipulateScene_parts sourceImg prompt =
     [TextPart (''You are an expert AI cinematographer. Your task is to re-render the provided image from a new camera perspective as described by the user.\<newline>\<newline>**Source Image:** The first image is the original scene.\<newline>**User Prompt:** "'' @ prompt @ ''"\<newline>\<newline>**CRITICAL INSTRUCTIONS:**\<newline>1.  **Recreate the Scene:** You must recreate the *exact same scene* from the source image. This includes all subjects, objects, clothing, and the environment.\<newline>2.  **Change Perspective ONLY:** The only change you are allowed to make is the camera's position, angle, or viewpoint as specified in the user's prompt.\<newline>3.  **Maintain Consistency:** Preserve the original image's lighting, color palette, mood, and artistic style. The new image should feel like it was taken moments apart from the original, just from a different spot.\<newline>4.  **Execute the Prompt:** Religiously follow the user's prompt to define the new perspective.\<newline>5.  **Output:** Produce a single, high-quality image that fulfills these requirements.''),
      fileToGenerativePart sourceImg]\<close>


section \<open>Responses of the service and their interpretation\<close>

record safetyRating =
  category :: string
  blocked :: bool

text \<open>
  A block of a response: \<open>inlineData\<close>, when present, is the pair of its \<open>mimeType\<close> and
  its \<open>data\<close>.
\<close>

record responsePart =
  inlineData :: \<open>(string \<times> string) option\<close>
  partText :: \<open>string option\<close>

text \<open>\<open>contentParts\<close> is \<open>content?.parts\<close>.\<close>

record candidate =
  finishReason :: \<open>string option\<close>
  safetyRatings :: \<open>safetyRating list option\<close>
  contentParts :: \<open>responsePart list option\<close>

text \<open>\<open>responseText\<close> is what the client library's accessor \<open>response.text\<close> yields.\<close>

record response =
  candidates :: \<open>candidate list option\<close>
  responseText :: \<open>string option\<close>

record GeminiOutput =
  imageUrl :: \<open>string option\<close>
  outputText :: \<open>string option\<close>

text \<open>\<open>response.candidates?.[0]\<close>\<close>

definition firstCandidate :: \<open>response \<Rightarrow> candidate option\<close> where
  \<open>firstCandidate r =
     (case candidates r of
        None \<Rightarrow> None
      | Some [] \<Rightarrow> None
      | Some (c # cs) \<Rightarrow> Some c)\<close>

text \<open>\<open>s.replace(pat, rep)\<close> with a string pattern: the first occurrence only.\<close>

fun replaceFirst :: \<open>string \<Rightarrow> string \<Rightarrow> string \<Rightarrow> string\<close> where
  \<open>replaceFirst [] pat rep = (if pat = [] then rep else [])\<close>
| \<open>replaceFirst (x # xs) pat rep =
     (if startsWith (x # xs) pat then rep @ drop (length pat) (x # xs)
      else x # replaceFirst xs pat rep)\<close>

definition blockedRatings :: \<open>candidate \<Rightarrow> string list option\<close> where
  \<open>blockedRatings c =
     (case safetyRatings c of
        None \<Rightarrow> None
      | Some rs \<Rightarrow>
          Some (map (\<lambda>r. replaceFirst (category r) ''HARM_CATEGORY_'' []) (filter blocked rs)))\<close>

text \<open>\<open>blockedRatings?.join(', ') || 'unspecified'\<close>\<close>

definition blockedSummary :: \<open>candidate \<Rightarrow> string\<close> where
  \<open>blockedSummary c =
     (case blockedRatings c of
        None \<Rightarrow> ''unspecified''
      | Some cats \<Rightarrow> if join '', '' cats = [] then ''unspecified'' else join '', '' cats)\<close>

definition dataUrl :: \<open>string \<times> string \<Rightarrow> string\<close> where
  \<open>dataUrl d = ''data:'' @ fst d @ '';base64,'' @ snd d\<close>

text \<open>The loop over the response parts in its two variants.\<close>

fun collectConcat :: \<open>responsePart list \<Rightarrow> GeminiOutput \<Rightarrow> GeminiOutput\<close> where
  \<open>collectConcat [] out = out\<close>
| \<open>collectConcat (p # ps) out =
     collectConcat ps
       (case inlineData p of
          Some d \<Rightarrow> out\<lparr>imageUrl := Some (dataUrl d)\<rparr>
        | None \<Rightarrow>
            (case partText p of
               None \<Rightarrow> out
             | Some t \<Rightarrow>
                 if t \<noteq> [] then
                   out\<lparr>outputText :=
                         Some ((case outputText out of None \<Rightarrow> [] | Some prev \<Rightarrow> prev) @ t)\<rparr>
                 else out))\<close>

fun collectOverwrite :: \<open>responsePart list \<Rightarrow> GeminiOutput \<Rightarrow> GeminiOutput\<close> where
  \<open>collectOverwrite [] out = out\<close>
| \<open>collectOverwrite (p # ps) out =
     collectOverwrite ps
       (case inlineData p of
          Some d \<Rightarrow> out\<lparr>imageUrl := Some (dataUrl d)\<rparr>
        | None \<Rightarrow>
            (case partText p of
               None \<Rightarrow> out
             | Some t \<Rightarrow> if t \<noteq> [] then out\<lparr>outputText := Some t\<rparr> else out))\<close>

definition noImage :: \<open>GeminiOutput \<Rightarrow> bool\<close> where
  \<open>noImage out = (imageUrl out = None \<or> imageUrl out = Some [])\<close>

definition messageOf :: \<open>thrown \<Rightarrow> string\<close> where
  \<open>messageOf e = (case e of JsError m \<Rightarrow> m | NonError t s \<Rightarrow> s)\<close>

text \<open>
  Each operation is given how the awaited \<open>enqueue(() => withRetry(apiCall))\<close> settled.
  The \<open>_try\<close> function is the body of the \<open>try\<close> after the \<open>await\<close>, with \<open>Inl\<close> the
  message of the \<open>Error\<close> it throws; the function named after the operation adds the
  \<open>catch\<close>, with \<open>Inl\<close> the message of the \<open>Error\<close> the caller receives.
\<close>

definition generateStudioPhoto_try :: \<open>response \<Rightarrow> string + GeminiOutput\<close> where
  \<open>generateStudioPhoto_try r =
     (case firstCandidate r of
        None \<Rightarrow> Inl ''The AI returned an empty response, which may be due to a content policy violation or a server error.''
      | Some c \<Rightarrow>
          (case finishReason c of
             Some reason \<Rightarrow>
               if reason \<noteq> [] \<and> reason \<notin> set [''STOP'', ''MAX_TOKENS''] then
                 if reason \<in> set [''SAFETY'', ''IMAGE_SAFETY''] then
                   Inl (''Request blocked for safety reasons: '' @ blockedSummary c @ ''. This can sometimes happen with portraits. Try using a different reference image or adjusting your text prompts.'')
                 else Inl (''Generation stopped for an unexpected reason: '' @ reason @ ''.'')
               else
                 (let out = collectConcat (case contentParts c of None \<Rightarrow> [] | Some ps \<Rightarrow> ps)
                              \<lparr>imageUrl = None, outputText = None\<rparr>
                  in if noImage out then
                       Inl ''The AI did not return an image. This can happen with unusual prompts. Please try again with a different prompt.''
                     else Inr out)
           | None \<Rightarrow>
               (let out = collectConcat (case contentParts c of None \<Rightarrow> [] | Some ps \<Rightarrow> ps)
                            \<lparr>imageUrl = None, outputText = None\<rparr>
                in if noImage out then
                     Inl ''The AI did not return an image. This can happen with unusual prompts. Please try again with a different prompt.''
                   else Inr out)))\<close>

definition generateStudioPhoto :: \<open>thrown + response \<Rightarrow> string + GeminiOutput\<close> where
  \<open>generateStudioPhoto settled =
     (case (case settled of Inl e \<Rightarrow> Inl (messageOf e) | Inr r \<Rightarrow> generateStudioPhoto_try r) of
        Inl m \<Rightarrow> Inl (''An error occurred while communicating with the AI. Details: '' @ m)
      | Inr out \<Rightarrow> Inr out)\<close>

definition inpaintImage_try :: \<open>response \<Rightarrow> string + GeminiOutput\<close> where
  \<open>inpaintImage_try r =
     (case firstCandidate r of
        None \<Rightarrow> Inl ''The AI returned an empty response, which may be due to a content policy violation or a server error.''
      | Some c \<Rightarrow>
          (case finishReason c of
             Some reason \<Rightarrow>
               if reason \<noteq> [] \<and> reason \<notin> set [''STOP'', ''MAX_TOKENS''] then
                 if reason \<in> set [''SAFETY'', ''IMAGE_SAFETY''] then
                   Inl (''In-painting request blocked for safety reasons: '' @ blockedSummary c @ ''. This can sometimes happen with portraits. Try using a different reference image or adjusting your text prompts.'')
                 else Inl (''In-painting stopped for an unexpected reason: '' @ reason @ ''.'')
               else
                 (let out = collectOverwrite (case contentParts c of None \<Rightarrow> [] | Some ps \<Rightarrow> ps)
                              \<lparr>imageUrl = None, outputText = None\<rparr>
                  in if noImage out then
                       Inl ''The AI did not return an image for in-painting. Please try again.''
                     else Inr out)
           | None \<Rightarrow>
               (let out = collectOverwrite (case contentParts c of None \<Rightarrow> [] | Some ps \<Rightarrow> ps)
                            \<lparr>imageUrl = None, outputText = None\<rparr>
                in if noImage out then
                     Inl ''The AI did not return an image for in-painting. Please try again.''
                   else Inr out)))\<close>

definition inpaintImage :: \<open>thrown + response \<Rightarrow> string + GeminiOutput\<close> where
  \<open>inpaintImage settled =
     (case (case settled of Inl e \<Rightarrow> Inl (messageOf e) | Inr r \<Rightarrow> inpaintImage_try r) of
        Inl m \<Rightarrow> Inl (''An error occurred during in-painting. Details: '' @ m)
      | Inr out \<Rightarrow> Inr out)\<close>

text \<open>\<open>describeImage\<close> returns \<open>response.text\<close> as it is, \<open>None\<close> being \<open>undefined\<close>.\<close>

definition describeImage_try :: \<open>response \<Rightarrow> string + string option\<close> where
  \<open>describeImage_try r =
     (case firstCandidate r of
        None \<Rightarrow> Inr (responseText r)
      | Some c \<Rightarrow>
          (case finishReason c of
             None \<Rightarrow> Inr (responseText r)
           | Some reason \<Rightarrow>
               if reason \<noteq> [] \<and> reason \<noteq> ''STOP'' then
                 if reason \<in> set [''SAFETY'', ''IMAGE_SAFETY''] then
                   Inl (''Image description blocked for safety reasons: '' @ blockedSummary c @ ''. Please use a different image.'')
                 else Inr (responseText r)
               else Inr (responseText r)))\<close>

definition describeImage :: \<open>thrown + response \<Rightarrow> string + string option\<close> where
  \<open>describeImage settled =
     (case (case settled of Inl e \<Rightarrow> Inl (messageOf e) | Inr r \<Rightarrow> describeImage_try r) of
        Inl m \<Rightarrow> Inl (''Failed to generate image description. Details: '' @ m)
      | Inr out \<Rightarrow> Inr out)\<close>

definition swapFace_try :: \<open>response \<Rightarrow> string + GeminiOutput\<close> where
  \<open>swapFace_try r =
     (case firstCandidate r of
        None \<Rightarrow> Inl ''The AI returned an empty response, which may be due to a content policy violation or a server error.''
      | Some c \<Rightarrow>
          (case finishReason c of
             Some reason \<Rightarrow>
               if reason \<noteq> [] \<and> reason \<notin> set [''STOP'', ''MAX_TOKENS''] then
                 if reason \<in> set [''SAFETY'', ''IMAGE_SAFETY''] then
                   Inl (''Face swap request blocked for safety reasons: '' @ blockedSummary c @ ''. This can sometimes happen with portraits. Try using a different reference image.'')
                 else Inl (''Face swap stopped for an unexpected reason: '' @ reason @ ''.'')
               else
                 (let out = collectConcat (case contentParts c of None \<Rightarrow> [] | Some ps \<Rightarrow> ps)
                              \<lparr>imageUrl = None, outputText = None\<rparr>
                  in if noImage out then
                       Inl ''The AI did not return an image for the face swap. Please try again.''
                     else Inr out)
           | None \<Rightarrow>
               (let out = collectConcat (case contentParts c of None \<Rightarrow> [] | Some ps \<Rightarrow> ps)
                            \<lparr>imageUrl = None, outputText = None\<rparr>
                in if noImage out then
                     Inl ''The AI did not return an image for the face swap. Please try again.''
                   else Inr out)))\<close>

definition swapFace :: \<open>thrown + response \<Rightarrow> string + GeminiOutput\<close> where
  \<open>swapFace settled =
     (case (case settled of Inl e \<Rightarrow> Inl (messageOf e) | Inr r \<Rightarrow> swapFace_try r) of
        Inl m \<Rightarrow> Inl (''An error occurred while swapping the face. Details: '' @ m)
      | Inr out \<Rightarrow> Inr out)\<close>

definition manipulateScene_try :: \<open>response \<Rightarrow> string + GeminiOutput\<close> where
  \<open>manipulateScene_try r =
     (case firstCandidate r of
        None \<Rightarrow> Inl ''The AI returned an empty response, possibly due to a content policy violation.''
      | Some c \<Rightarrow>
          (case finishReason c of
             Some reason \<Rightarrow>
               if reason \<noteq> [] \<and> reason \<notin> set [''STOP'', ''MAX_TOKENS''] then
                 if reason \<in> set [''SAFETY'', ''IMAGE_SAFETY''] then
                   Inl (''Request blocked for safety reasons: '' @ blockedSummary c @ ''. Please adjust your prompt or use a different image.'')
                 else Inl (''Generation stopped unexpectedly: '' @ reason @ ''.'')
               else
                 (let out = collectOverwrite (case contentParts c of None \<Rightarrow> [] | Some ps \<Rightarrow> ps)
                              \<lparr>imageUrl = None, outputText = None\<rparr>
                  in if noImage out then
                       Inl ''The AI did not return an image for scene manipulation.''
                     else Inr out)
           | None \<Rightarrow>
               (let out = collectOverwrite (case contentParts c of None \<Rightarrow> [] | Some ps \<Rightarrow> ps)
                            \<lparr>imageUrl = None, outputText = None\<rparr>
                in if noImage out then
                     Inl ''The AI did not return an image for scene manipulation.''
                   else Inr out)))\<close>

definition manipulateScene :: \<open>thrown + response \<Rightarrow> string + GeminiOutput\<close> where
  \<open>manipulateScene settled =
     (case (case settled of Inl e \<Rightarrow> Inl (messageOf e) | Inr r \<Rightarrow> manipulateScene_try r) of
        Inl m \<Rightarrow> Inl (''An error occurred during scene manipulation. Details: '' @ m)
      | Inr out \<Rightarrow> Inr out)\<close>

subsection \<open>\<open>analyzeArtReference\<close>\<close>

definition isWhiteSpace :: \<open>char \<Rightarrow> bool\<close> where
  \<open>isWhiteSpace c =
     (c \<in> set [CHR 0x09, CHR 0x0A, CHR 0x0B, CHR 0x0C, CHR 0x0D, CHR 0x20, CHR 0xA0])\<close>

definition trim :: \<open>string \<Rightarrow> string\<close> where
  \<open>trim s = rev (dropWhile isWhiteSpace (rev (dropWhile isWhiteSpace s)))\<close>

text \<open>
  Why \<open>analyzeArtReference\<close> failed: the awaited call threw (with that message), or the
  runtime raised a \<open>TypeError\<close> or \<open>JSON.parse\<close> a \<open>SyntaxError\<close>, whose messages are the
  runtime's. The \<open>Error\<close> the caller receives has the message \<open>analyzeFailurePrefix\<close>
  followed by the message of the cause.
\<close>

datatype cause =
    Upstream string
  | TypeError
  | SyntaxError

definition analyzeFailurePrefix :: \<open>string\<close> where
  \<open>analyzeFailurePrefix = ''Failed to analyze art reference. Details: ''\<close>

text \<open>The properties of an array: its elements under their indices.\<close>

definition arrayProps :: \<open>json list \<Rightarrow> (string \<times> json) list\<close> where
  \<open>arrayProps xs = zip (map showNat [0..<length xs]) xs\<close>

text \<open>\<open>LIGHTING_STYLES.includes(result.lightingStyle)\<close>\<close>

definition knownLightingStyle :: \<open>json option \<Rightarrow> bool\<close> where
  \<open>knownLightingStyle v =
     (case v of
        Some (JStr s) \<Rightarrow> s \<in> set LIGHTING_STYLES
      | _ \<Rightarrow> False)\<close>

text \<open>
  The returned \<open>result\<close> is given by its properties. Reading \<open>lightingStyle\<close> of \<open>null\<close>
  throws; on a boolean, number or string the read yields \<open>undefined\<close> and the assignment
  that follows throws, the file being a module and therefore strict code.
\<close>

definition analyzeArtReference_try ::
  \<open>(string \<Rightarrow> json option) \<Rightarrow> response \<Rightarrow> cause + (string \<times> json) list\<close> where
  \<open>analyzeArtReference_try parse r =
     (case responseText r of
        None \<Rightarrow> Inl TypeError
      | Some t \<Rightarrow>
          (case parse (trim t) of
             None \<Rightarrow> Inl SyntaxError
           | Some (JObj kvs) \<Rightarrow>
               if \<not> knownLightingStyle (map_of kvs ''lightingStyle'')
               then Inr (AList.update ''lightingStyle'' (JStr ''None'') kvs)
               else Inr kvs
           | Some (JArr xs) \<Rightarrow>
               if \<not> knownLightingStyle (map_of (arrayProps xs) ''lightingStyle'')
               then Inr (AList.update ''lightingStyle'' (JStr ''None'') (arrayProps xs))
               else Inr (arrayProps xs)
           | Some v \<Rightarrow> Inl TypeError))\<close>

definition analyzeArtReference ::
  \<open>(string \<Rightarrow> json option) \<Rightarrow> thrown + response \<Rightarrow> cause + (string \<times> json) list\<close> where
  \<open>analyzeArtReference parse settled =
     (case settled of
        Inl e \<Rightarrow> Inl (Upstream (messageOf e))
      | Inr r \<Rightarrow> analyzeArtReference_try parse r)\<close>


section \<open>Notions used to state the properties\<close>

text \<open>
  The text blocks and the image blocks of a response as the loops see them: a part with
  \<open>inlineData\<close> is an image block (rendered as a data URL), any other part with a
  non-empty \<open>text\<close> is a text block.
\<close>

definition textBlocks :: \<open>responsePart list \<Rightarrow> string list\<close> where
  \<open>textBlocks ps =
     concat (map (\<lambda>p. case inlineData p of
                         Some d \<Rightarrow> []
                       | None \<Rightarrow> (case partText p of None \<Rightarrow> [] | Some t \<Rightarrow> if t \<noteq> [] then [t] else []))
                 ps)\<close>

definition imageBlocks :: \<open>responsePart list \<Rightarrow> string list\<close> where
  \<open>imageBlocks ps =
     concat (map (\<lambda>p. case inlineData p of Some d \<Rightarrow> [dataUrl d] | None \<Rightarrow> []) ps)\<close>

text \<open>
  The image blocks of a request, in order, each paired with the text of the block
  immediately before it, or with \<open>None\<close> when the block before it is not a text block (or
  there is none). A list of parts is \<open>labelled\<close> when every image block has a text block
  right before it.
\<close>

fun imagesFrom :: \<open>string option \<Rightarrow> part list \<Rightarrow> (string option \<times> part) list\<close> where
  \<open>imagesFrom prev [] = []\<close>
| \<open>imagesFrom prev (TextPart t # ps) = imagesFrom (Some t) ps\<close>
| \<open>imagesFrom prev (InlineDataPart d m # ps) = (prev, InlineDataPart d m) # imagesFrom None ps\<close>

definition labelledImages :: \<open>part list \<Rightarrow> (string option \<times> part) list\<close> where
  \<open>labelledImages ps = imagesFrom None ps\<close>

definition labelled :: \<open>part list \<Rightarrow> bool\<close> where
  \<open>labelled ps = (None \<notin> set (map fst (labelledImages ps)))\<close>

definition labelledImage :: \<open>string \<Rightarrow> ImageFile option \<Rightarrow> (string option \<times> part) list\<close> where
  \<open>labelledImage label img =
     (case img of None \<Rightarrow> [] | Some file \<Rightarrow> [(Some label, fileToGenerativePart file)])\<close>

text \<open>
  The prompt text of a composite-generate request: the text of the first part.
\<close>

definition synthesizedPrompt :: \<open>GenerateStudioPhotoParams \<Rightarrow> string\<close> where
  \<open>synthesizedPrompt p = (case generateStudioPhoto_parts p of TextPart t # rest \<Rightarrow> t | _ \<Rightarrow> [])\<close>

text \<open>
  A request that carries only the subject image \<open>src\<close>: every other field has the initial
  value the application gives it (\<open>useState\<close> in \<open>App\<close>), and no style effect is selected.
\<close>

definition defaultParams :: \<open>ImageFile \<Rightarrow> GenerateStudioPhotoParams\<close> where
  \<open>defaultParams src =
     \<lparr>sourceImage = src, subjectMode = single, subjectPrompt = [],
      faceReferenceImage = None, dressImage = None, dressPrompt = [],
      objectImage = None, backgroundImage = None, backgroundPrompt = [],
      backgroundMode = describe, stylePrompt = [],
      artReferenceImage = None, artReferencePrompt = [],
      artStyleInfluence = 75, subjectInfluence = 75, surprise = 25,
      integrationAnalysis = [], lightingStyle = ''None'',
      perspectiveDistance = ''None'', perspectiveAngle = ''None'', perspectivePOV = ''None'',
      perspectiveMovement = ''None'', perspectiveLens = ''None'',
      useArtReferenceLighting = False, useArtReferenceSkin = False,
      flyerText = [], thumbnailText = [],
      skinTexture = ''None'', highlightStyle = ''None'', highlightIntensity = ''None'',
      aperture = ''None'', shutterSpeed = ''None'', iso = ''None'',
      focusMode = ''Auto'', manualFocusSubject = [], exposure = 0,
      lensType = ''None'', shootingMode = ''None'', lightingTemperature = 5500\<rparr>\<close>

text \<open>
  The kinds of the trace entries of job \<open>j\<close>, in order, and the invariant of the queue:
  \<open>k\<close> jobs have been taken from the queue, the queue holds the jobs \<open>k, k+1, ...\<close> in
  order, at most the last job taken is in flight (and then the flag is set), the trace
  is ordered by job, and every job taken has started, made at least one attempt and,
  unless it is the one in flight, settled.
\<close>

definition life :: \<open>nat \<Rightarrow> entry list \<Rightarrow> kind list\<close> where
  \<open>life j tr = map kindOf (filter (\<lambda>e. jobOf e = j) tr)\<close>

definition queueInv :: \<open>nat \<Rightarrow> queueState \<Rightarrow> bool\<close> where
  \<open>queueInv k s =
     (k \<le> submitted s \<and> requestQueue s = [k..<submitted s] \<and>
      (inFlight s = [] \<or> (isProcessing s \<and> 0 < k \<and> inFlight s = [k - 1])) \<and>
      sorted (map jobOf (trace s)) \<and>
      (\<forall>e \<in> set (trace s). jobOf e < k) \<and>
      (\<forall>j < k. \<exists>n. life j (trace s) =
                     (if j \<in> set (inFlight s) then Start # replicate (Suc n) Attempt
                      else Start # replicate (Suc n) Attempt @ [Settlement])))\<close>

section \<open>Properties of the retry policy\<close>

declare withRetry_from.simps [simp del]

lemma withRetry_from_stops_on_other_error:
  assumes \<open>attempt < maxRetries\<close>
    and \<open>apiCall attempt = Rejected e\<close>
    and \<open>\<not> isRateLimitError parse e\<close>
  shows \<open>withRetry_from parse apiCall jitter maxRetries d b attempt lastError =
         \<lparr>result = Inl e, invocations = 1, delays = []\<rparr>\<close>
  using assms by (subst withRetry_from.simps) simp

lemma withRetry_from_retries:
  assumes \<open>Suc attempt < maxRetries\<close>
    and \<open>apiCall attempt = Rejected e\<close>
    and \<open>isRateLimitError parse e\<close>
  shows \<open>withRetry_from parse apiCall jitter maxRetries d b attempt lastError =
         (let r = withRetry_from parse apiCall jitter maxRetries d b (Suc attempt) (Some e)
          in r\<lparr>invocations := Suc (invocations r),
                delays := (d * b ^ attempt + jitter attempt * 1000) # delays r\<rparr>)\<close>
  using assms by (subst withRetry_from.simps) simp


lemma withRetry_from_other_error_after_retries:
  assumes \<open>a \<le> k\<close> and \<open>k < maxRetries\<close>
    and \<open>\<forall>i. a \<le> i \<and> i < k \<longrightarrow> (\<exists>e'. apiCall i = Rejected e' \<and> isRateLimitError parse e')\<close>
    and \<open>apiCall k = Rejected e\<close>
    and \<open>\<not> isRateLimitError parse e\<close>
  shows \<open>result (withRetry_from parse apiCall jitter maxRetries d b a lastError) = Inl e \<and>
         invocations (withRetry_from parse apiCall jitter maxRetries d b a lastError) = Suc (k - a) \<and>
         length (delays (withRetry_from parse apiCall jitter maxRetries d b a lastError)) = k - a\<close>
  using assms
proof (induction \<open>k - a\<close> arbitrary: a lastError)
  case 0
  then have \<open>a = k\<close> by simp
  with 0 show ?case
    by (simp add: withRetry_from_stops_on_other_error)
next
  case (Suc n)
  then have lt: \<open>a < k\<close> by simp
  with Suc.prems obtain e' where e': \<open>apiCall a = Rejected e'\<close> \<open>isRateLimitError parse e'\<close>
    by (meson order_refl)
  from lt Suc.prems have more: \<open>Suc a < maxRetries\<close> by simp
  have step: \<open>n = k - Suc a\<close> using Suc.hyps(2) by simp
  have later: \<open>\<forall>i. Suc a \<le> i \<and> i < k \<longrightarrow> (\<exists>e'. apiCall i = Rejected e' \<and> isRateLimitError parse e')\<close>
    using Suc.prems(3) by auto
  have ih: \<open>result (withRetry_from parse apiCall jitter maxRetries d b (Suc a) (Some e')) = Inl e \<and>
      invocations (withRetry_from parse apiCall jitter maxRetries d b (Suc a) (Some e')) = Suc (k - Suc a) \<and>
      length (delays (withRetry_from parse apiCall jitter maxRetries d b (Suc a) (Some e'))) = k - Suc a\<close>
    using Suc.hyps(1) [OF step _ Suc.prems(2) later Suc.prems(4) Suc.prems(5)] lt by simp
  show ?case
    using ih lt more e' by (simp add: withRetry_from_retries Let_def)
qed


lemma isRateLimitError_markers:
  \<open>isRateLimitError parse (JsError msg) \<longleftrightarrow>
     structuredRateLimit parse msg \<or> includes_str msg ''429'' \<or>
     includes_str msg ''RESOURCE_EXHAUSTED'' \<or> includes_str msg ''rate limit''\<close>
  \<open>\<not> isRateLimitError parse (NonError t s)\<close>
  by (auto simp add: isRateLimitError_def Let_def)

text \<open>
  C3 (amended). A failure that \<open>withRetry\<close> does not classify as a rate-limit error is
  re-thrown right after the failing attempt: when the invocations before attempt \<open>k\<close>
  were all rate-limited and invocation \<open>k\<close> fails with an error \<open>e\<close> that is not, the run
  settles with \<open>e\<close> itself, invocation \<open>k\<close> is the last one (\<open>k + 1\<close> in all), and the only
  delays are the \<open>k\<close> that preceded the earlier retries, so none follows the failing
  attempt. Not classified means: no code 429 and no status RESOURCE_EXHAUSTED in an
  embedded JSON body, and none of the substrings \<open>429\<close>, \<open>RESOURCE_EXHAUSTED\<close> and
  \<open>rate limit\<close> in the message (\<open>isRateLimitError_markers\<close>); a thrown value that is no
  \<open>Error\<close> is never classified.
\<close>

theorem withRetry_rethrows_non_rate_limit:
  assumes \<open>k < maxRetries\<close>
    and \<open>\<forall>i<k. \<exists>e'. apiCall i = Rejected e' \<and> isRateLimitError parse e'\<close>
    and \<open>apiCall k = Rejected e\<close>
    and \<open>\<not> isRateLimitError parse e\<close>
  shows \<open>result (withRetry parse apiCall jitter maxRetries initialDelay backoffFactor) = Inl e \<and>
         invocations (withRetry parse apiCall jitter maxRetries initialDelay backoffFactor) = Suc k \<and>
         length (delays (withRetry parse apiCall jitter maxRetries initialDelay backoffFactor)) = k\<close>
  using withRetry_from_other_error_after_retries
          [of 0 k maxRetries apiCall parse e jitter initialDelay backoffFactor None] assms
  by (simp add: withRetry_def)

theorem withRetry_rethrows_non_rate_limit_witness:
  \<open>\<not> isRateLimitError (\<lambda>m. None) (JsError ''Network down'') \<and>
   result (withRetry (\<lambda>m. None)
             (\<lambda>n. if n = 0 then Rejected (JsError ''429 Too Many Requests'')
                  else (Rejected (JsError ''Network down'') :: unit outcome))
             (\<lambda>n. 0) 5 3000 2) = Inl (JsError ''Network down'') \<and>
   invocations (withRetry (\<lambda>m. None)
             (\<lambda>n. if n = 0 then Rejected (JsError ''429 Too Many Requests'')
                  else (Rejected (JsError ''Network down'') :: unit outcome))
             (\<lambda>n. 0) 5 3000 2) = 2 \<and>
   length (delays (withRetry (\<lambda>m. None)
             (\<lambda>n. if n = 0 then Rejected (JsError ''429 Too Many Requests'')
                  else (Rejected (JsError ''Network down'') :: unit outcome))
             (\<lambda>n. 0) 5 3000 2)) = 1\<close>
proof -
  have other: \<open>\<not> isRateLimitError (\<lambda>m. None) (JsError ''Network down'')\<close>
    by (simp add: isRateLimitError_def structuredRateLimit_def)
  have limited: \<open>isRateLimitError (\<lambda>m. None) (JsError ''429 Too Many Requests'')\<close>
    by (simp add: isRateLimitError_def structuredRateLimit_def)
  show ?thesis
    using withRetry_rethrows_non_rate_limit
            [of 1 5 \<open>\<lambda>n. if n = 0 then Rejected (JsError ''429 Too Many Requests'')
                          else (Rejected (JsError ''Network down'') :: unit outcome)\<close>
                \<open>\<lambda>m. None\<close> \<open>JsError ''Network down''\<close> \<open>\<lambda>n. 0\<close> 3000 2]
          other limited
    by simp
qed

text \<open>
  C3 as stated fails: an error whose message is \<open>rate limit reached\<close> carries no 429
  code and no RESOURCE_EXHAUSTED marker, structured or substring, yet it is not
  re-thrown: \<open>withRetry\<close> sleeps and invokes the call a second time.
\<close>

theorem withRetry_retries_rate_limit_phrase_counterexample:
  \<open>\<not> structuredRateLimit (\<lambda>m. None) ''rate limit reached'' \<and>
   \<not> includes_str ''rate limit reached'' ''429'' \<and>
   \<not> includes_str ''rate limit reached'' ''RESOURCE_EXHAUSTED'' \<and>
   result (withRetry (\<lambda>m. None)
             (\<lambda>n. if n = 0 then Rejected (JsError ''rate limit reached'') else Fulfilled ())
             (\<lambda>n. 0) 5 3000 2) = Inr () \<and>
   invocations (withRetry (\<lambda>m. None)
             (\<lambda>n. if n = 0 then Rejected (JsError ''rate limit reached'') else Fulfilled ())
             (\<lambda>n. 0) 5 3000 2) = 2 \<and>
   length (delays (withRetry (\<lambda>m. None)
             (\<lambda>n. if n = 0 then Rejected (JsError ''rate limit reached'') else Fulfilled ())
             (\<lambda>n. 0) 5 3000 2)) = 1\<close>
  by (simp add: withRetry_def withRetry_from.simps isRateLimitError_def structuredRateLimit_def)



section \<open>Properties of the serial job queue\<close>

lemma life_append: \<open>life j (xs @ ys) = life j xs @ life j ys\<close>
  by (simp add: life_def)

lemma life_other: \<open>\<forall>e \<in> set xs. jobOf e \<noteq> j \<Longrightarrow> life j xs = []\<close>
  by (simp add: life_def)

lemma queueInv_initial: \<open>queueInv 0 initialQueue\<close>
  by (simp add: queueInv_def initialQueue_def)

lemma queueInv_processQueue:
  assumes \<open>queueInv k s\<close>
  shows \<open>\<exists>k'. queueInv k' (processQueue s)\<close>
proof (cases \<open>isProcessing s \<or> length (requestQueue s) = 0\<close>)
  case True
  then have \<open>processQueue s = s\<close> by (simp add: processQueue_def)
  with assms show ?thesis by auto
next
  case False
  then have idle: \<open>\<not> isProcessing s\<close> and ne: \<open>requestQueue s \<noteq> []\<close> by auto
  from assms have q: \<open>requestQueue s = [k..<submitted s]\<close> and le: \<open>k \<le> submitted s\<close>
    by (simp_all add: queueInv_def)
  from ne q have lt: \<open>k < submitted s\<close> by simp
  then have q': \<open>requestQueue s = k # [Suc k..<submitted s]\<close>
    using q by (simp add: upt_conv_Cons)
  from assms idle have nofl: \<open>inFlight s = []\<close> by (auto simp add: queueInv_def)
  have pq: \<open>processQueue s =
      s\<lparr>isProcessing := True, requestQueue := [Suc k..<submitted s], inFlight := [k],
        trace := trace s @ [Entry Start k (now s), Entry Attempt k (now s)]\<rparr>\<close>
    using idle q' nofl by (simp add: processQueue_def)
  from assms have below: \<open>\<forall>e \<in> set (trace s). jobOf e < k\<close>
    and srt: \<open>sorted (map jobOf (trace s))\<close>
    and lives: \<open>\<forall>j < k. \<exists>n. life j (trace s) = Start # replicate (Suc n) Attempt @ [Settlement]\<close>
    using nofl by (simp_all add: queueInv_def)
  have srt': \<open>sorted (map jobOf (trace s) @ [k, k])\<close>
    using srt below by (auto simp add: sorted_append dest: less_imp_le)
  have lifek: \<open>life k (trace s) = []\<close>
    using below by (intro life_other) auto
  have \<open>queueInv (Suc k) (processQueue s)\<close>
    unfolding queueInv_def pq
  proof (intro conjI)
    show \<open>\<forall>j<Suc k. \<exists>n. life j (trace (s\<lparr>isProcessing := True, requestQueue := [Suc k..<submitted s],
             inFlight := [k], trace := trace s @ [Entry Start k (now s), Entry Attempt k (now s)]\<rparr>)) =
          (if j \<in> set (inFlight (s\<lparr>isProcessing := True, requestQueue := [Suc k..<submitted s],
             inFlight := [k], trace := trace s @ [Entry Start k (now s), Entry Attempt k (now s)]\<rparr>))
           then Start # replicate (Suc n) Attempt
           else Start # replicate (Suc n) Attempt @ [Settlement])\<close>
    proof (intro allI impI)
      fix j assume \<open>j < Suc k\<close>
      show \<open>\<exists>n. life j (trace (s\<lparr>isProcessing := True, requestQueue := [Suc k..<submitted s],
             inFlight := [k], trace := trace s @ [Entry Start k (now s), Entry Attempt k (now s)]\<rparr>)) =
          (if j \<in> set (inFlight (s\<lparr>isProcessing := True, requestQueue := [Suc k..<submitted s],
             inFlight := [k], trace := trace s @ [Entry Start k (now s), Entry Attempt k (now s)]\<rparr>))
           then Start # replicate (Suc n) Attempt
           else Start # replicate (Suc n) Attempt @ [Settlement])\<close>
      proof (cases \<open>j = k\<close>)
        case True
        then show ?thesis
          using lifek by (intro exI [of _ 0]) (simp add: life_append, simp add: life_def)
      next
        case False
        with \<open>j < Suc k\<close> have \<open>j < k\<close> by simp
        then obtain n where \<open>life j (trace s) = Start # replicate (Suc n) Attempt @ [Settlement]\<close>
          using lives by blast
        then show ?thesis
          using False by (intro exI [of _ n]) (simp add: life_append, simp add: life_def)
      qed
    qed
  qed (use lt srt' below in \<open>auto simp add: less_Suc_eq\<close>)
  then show ?thesis by blast
qed


lemma queueInv_enqueue:
  assumes \<open>queueInv k s\<close>
  shows \<open>\<exists>k'. queueInv k' (enqueue s)\<close>
proof -
  have \<open>queueInv k (s\<lparr>requestQueue := requestQueue s @ [submitted s],
                       submitted := Suc (submitted s)\<rparr>)\<close>
    using assms by (auto simp add: queueInv_def)
  then show ?thesis
    unfolding enqueue_def by (rule queueInv_processQueue)
qed

lemma queueInv_fire:
  assumes \<open>queueInv k s\<close>
  shows \<open>\<exists>k'. queueInv k' (fire s)\<close>
proof (cases \<open>timers s\<close>)
  case Nil
  then show ?thesis using assms by (auto simp add: fire_def)
next
  case (Cons due later)
  have \<open>queueInv k (s\<lparr>timers := later\<rparr>)\<close>
    using assms by (simp add: queueInv_def)
  then have \<open>\<exists>k'. queueInv k' (processQueue (s\<lparr>timers := later\<rparr>))\<close>
    by (rule queueInv_processQueue)
  then show ?thesis
    using Cons assms by (auto simp add: fire_def)
qed

lemma queueInv_running:
  assumes \<open>queueInv k s\<close> and \<open>j \<in> set (inFlight s)\<close>
  shows \<open>0 < k \<and> j = k - 1 \<and> inFlight s = [j] \<and> isProcessing s\<close>
  using assms by (auto simp add: queueInv_def)

lemma queueInv_retry:
  assumes \<open>queueInv k s\<close>
  shows \<open>queueInv k (retry j s)\<close>
proof (cases \<open>j \<in> set (inFlight s)\<close>)
  case False
  then show ?thesis using assms by (simp add: retry_def)
next
  case True
  note run = queueInv_running [OF assms True]
  from assms have below: \<open>\<forall>e \<in> set (trace s). jobOf e < k\<close>
    and srt: \<open>sorted (map jobOf (trace s))\<close>
    and lives: \<open>\<forall>i < k. \<exists>n. life i (trace s) =
                     (if i \<in> set (inFlight s) then Start # replicate (Suc n) Attempt
                      else Start # replicate (Suc n) Attempt @ [Settlement])\<close>
    and q: \<open>k \<le> submitted s\<close> \<open>requestQueue s = [k..<submitted s]\<close>
    by (simp_all add: queueInv_def)
  have srt': \<open>sorted (map jobOf (trace s) @ [j])\<close>
    using srt below run by (fastforce simp add: sorted_append)
  have lives': \<open>\<exists>n. life i (trace s @ [Entry Attempt j (now s)]) =
                     (if i \<in> set (inFlight s) then Start # replicate (Suc n) Attempt
                      else Start # replicate (Suc n) Attempt @ [Settlement])\<close>
    if \<open>i < k\<close> for i
  proof (cases \<open>i = j\<close>)
    case True
    obtain n where \<open>life j (trace s) = Start # replicate (Suc n) Attempt\<close>
      using lives run \<open>i < k\<close> True by fastforce
    then have \<open>life j (trace s @ [Entry Attempt j (now s)]) = Start # replicate (Suc (Suc n)) Attempt\<close>
      by (simp add: life_def replicate_append_same)
    then show ?thesis using True run by (intro exI [of _ \<open>Suc n\<close>]) simp
  next
    case False
    then have \<open>life i (trace s @ [Entry Attempt j (now s)]) = life i (trace s)\<close>
      by (simp add: life_append) (simp add: life_def)
    then show ?thesis using lives \<open>i < k\<close> by simp
  qed
  show ?thesis
    using True q run srt' below lives' by (simp add: retry_def queueInv_def)
qed

lemma queueInv_settle:
  assumes \<open>queueInv k s\<close>
  shows \<open>queueInv k (settle j s)\<close>
proof (cases \<open>j \<in> set (inFlight s)\<close>)
  case False
  then show ?thesis using assms by (simp add: settle_def)
next
  case True
  note run = queueInv_running [OF assms True]
  from assms have below: \<open>\<forall>e \<in> set (trace s). jobOf e < k\<close>
    and srt: \<open>sorted (map jobOf (trace s))\<close>
    and lives: \<open>\<forall>i < k. \<exists>n. life i (trace s) =
                     (if i \<in> set (inFlight s) then Start # replicate (Suc n) Attempt
                      else Start # replicate (Suc n) Attempt @ [Settlement])\<close>
    and q: \<open>k \<le> submitted s\<close> \<open>requestQueue s = [k..<submitted s]\<close>
    by (simp_all add: queueInv_def)
  have srt': \<open>sorted (map jobOf (trace s) @ [j])\<close>
    using srt below run by (fastforce simp add: sorted_append)
  have lives': \<open>\<exists>n. life i (trace s @ [Entry Settlement j (now s)]) =
                     Start # replicate (Suc n) Attempt @ [Settlement]\<close>
    if \<open>i < k\<close> for i
  proof (cases \<open>i = j\<close>)
    case True
    obtain n where \<open>life j (trace s) = Start # replicate (Suc n) Attempt\<close>
      using lives run \<open>i < k\<close> True by fastforce
    then have \<open>life j (trace s @ [Entry Settlement j (now s)]) =
        Start # replicate (Suc n) Attempt @ [Settlement]\<close>
      by (simp add: life_append) (simp add: life_def)
    then show ?thesis using True by auto
  next
    case False
    then have same: \<open>life i (trace s @ [Entry Settlement j (now s)]) = life i (trace s)\<close>
      by (simp add: life_append) (simp add: life_def)
    from False run have \<open>i \<notin> set (inFlight s)\<close> by auto
    then show ?thesis using lives \<open>i < k\<close> same by auto
  qed
  have fl: \<open>removeAll j (inFlight s) = []\<close> using run by simp
  show ?thesis
    using True q run srt' below lives' fl by (simp add: settle_def queueInv_def)
qed

lemma queueInv_step:
  assumes \<open>queueInv k s\<close>
  shows \<open>\<exists>k'. queueInv k' (step s ev)\<close>
proof (cases ev)
  case Enqueue
  then show ?thesis using queueInv_enqueue [OF assms] by simp
next
  case (Retry j)
  then show ?thesis using queueInv_retry [OF assms] by auto
next
  case (Settle j)
  then show ?thesis using queueInv_settle [OF assms] by auto
next
  case Fire
  then show ?thesis using queueInv_fire [OF assms] by simp
next
  case (Advance d)
  have \<open>queueInv k (s\<lparr>now := now s + d\<rparr>)\<close>
    using assms by (simp add: queueInv_def)
  then show ?thesis using Advance by auto
qed

lemma queueInv_foldl:
  assumes \<open>queueInv k s\<close>
  shows \<open>\<exists>k'. queueInv k' (foldl step s evs)\<close>
  using assms
proof (induction evs arbitrary: k s)
  case Nil
  then show ?case by auto
next
  case (Cons ev evs)
  from queueInv_step [OF Cons.prems] obtain k' where \<open>queueInv k' (step s ev)\<close> by blast
  from Cons.IH [OF this] show ?case by simp
qed

lemma queueInv_run: \<open>\<exists>k. queueInv k (run evs)\<close>
  unfolding run_def using queueInv_initial by (rule queueInv_foldl)

lemma sorted_key_split:
  \<open>sorted (map f xs) \<Longrightarrow>
   xs = filter (\<lambda>e. f e < (j::nat)) xs @ filter (\<lambda>e. f e = j) xs @ filter (\<lambda>e. j < f e) xs\<close>
proof (induction xs)
  case Nil
  then show ?case by simp
next
  case (Cons x xs)
  then have ih: \<open>xs = filter (\<lambda>e. f e < j) xs @ filter (\<lambda>e. f e = j) xs @ filter (\<lambda>e. j < f e) xs\<close>
    and ge: \<open>\<forall>y \<in> set xs. f x \<le> f y\<close>
    by simp_all
  consider \<open>f x < j\<close> | \<open>f x = j\<close> | \<open>j < f x\<close> by linarith
  then show ?case
  proof cases
    case 1
    then show ?thesis using ih by simp
  next
    case 2
    with ge have \<open>filter (\<lambda>e. f e < j) xs = []\<close> by (auto simp add: filter_empty_conv)
    with ih have \<open>xs = filter (\<lambda>e. f e = j) xs @ filter (\<lambda>e. j < f e) xs\<close> by simp
    with 2 \<open>filter (\<lambda>e. f e < j) xs = []\<close> show ?thesis by simp
  next
    case 3
    with ge have e1: \<open>filter (\<lambda>e. f e < j) xs = []\<close> and e2: \<open>filter (\<lambda>e. f e = j) xs = []\<close>
      by (auto simp add: filter_empty_conv)
    with ih have \<open>xs = filter (\<lambda>e. j < f e) xs\<close> by simp
    with 3 e1 e2 show ?thesis by simp
  qed
qed

lemma append_eq_split_fresh:
  assumes \<open>xs @ ys = pre @ e # post\<close> and \<open>e \<notin> set xs\<close>
  shows \<open>\<exists>c. pre = xs @ c \<and> ys = c @ e # post\<close>
proof -
  from assms(1) obtain us where
    \<open>(xs = pre @ us \<and> us @ ys = e # post) \<or> (xs @ us = pre \<and> ys = us @ e # post)\<close>
    by (auto simp add: append_eq_append_conv2)
  then show ?thesis
  proof
    assume a: \<open>xs = pre @ us \<and> us @ ys = e # post\<close>
    show ?thesis
    proof (cases us)
      case Nil
      with a show ?thesis by auto
    next
      case (Cons u us')
      with a have \<open>e \<in> set xs\<close> by auto
      with assms(2) show ?thesis by simp
    qed
  next
    assume \<open>xs @ us = pre \<and> ys = us @ e # post\<close>
    then show ?thesis by auto
  qed
qed

lemma finished_life_entries:
  assumes \<open>map kindOf B = Start # replicate (Suc n) Attempt @ [Settlement]\<close>
    and \<open>\<forall>e \<in> set B. jobOf e = j\<close>
  shows \<open>\<exists>ta tb mid. B = Entry Start j ta # mid @ [Entry Settlement j tb] \<and> mid \<noteq> [] \<and>
           (\<forall>e \<in> set mid. kindOf e = Attempt \<and> jobOf e = j)\<close>
proof -
  from assms(1) obtain b0 rest where B: \<open>B = b0 # rest\<close> and k0: \<open>kindOf b0 = Start\<close>
    and rest: \<open>map kindOf rest = replicate (Suc n) Attempt @ [Settlement]\<close>
    by (auto simp add: map_eq_Cons_conv)
  from rest obtain mid bl where R: \<open>rest = mid @ [bl]\<close>
    and mid: \<open>map kindOf mid = replicate (Suc n) Attempt\<close> and kl: \<open>kindOf bl = Settlement\<close>
    by (auto simp add: map_eq_append_conv map_eq_Cons_conv)
  have j0: \<open>jobOf b0 = j\<close> and jl: \<open>jobOf bl = j\<close> and jm: \<open>\<forall>e \<in> set mid. jobOf e = j\<close>
    using assms(2) B R by auto
  have b0: \<open>b0 = Entry Start j (timeOf b0)\<close>
    using k0 j0 by (cases b0) simp
  have bl: \<open>bl = Entry Settlement j (timeOf bl)\<close>
    using kl jl by (cases bl) simp
  have km: \<open>\<forall>e \<in> set mid. kindOf e = Attempt\<close>
  proof
    fix e assume \<open>e \<in> set mid\<close>
    then have \<open>kindOf e \<in> set (map kindOf mid)\<close> by simp
    then show \<open>kindOf e = Attempt\<close> unfolding mid by auto
  qed
  have ne: \<open>mid \<noteq> []\<close> using mid by auto
  have \<open>B = Entry Start j (timeOf b0) # mid @ [Entry Settlement j (timeOf bl)]\<close>
    using B R b0 bl by simp
  then show ?thesis using ne km jm by blast
qed

lemma inFlight_at_most_one: \<open>length (inFlight (run evs)) \<le> 1\<close>
proof -
  obtain k where \<open>queueInv k (run evs)\<close> using queueInv_run by blast
  then show ?thesis by (auto simp add: queueInv_def)
qed

lemma earlier_job_done_before_start:
  assumes \<open>trace (run evs) = pre @ Entry Start j2 t2 # post\<close> and \<open>j1 < j2\<close>
  shows \<open>\<exists>ta tb p1 mid p3.
           pre = p1 @ Entry Start j1 ta # mid @ Entry Settlement j1 tb # p3 \<and>
           mid \<noteq> [] \<and>
           (\<forall>e \<in> set mid. kindOf e = Attempt \<and> jobOf e = j1) \<and>
           (\<forall>e \<in> set (p1 @ p3 @ post). jobOf e \<noteq> j1)\<close>
proof -
  obtain k where inv: \<open>queueInv k (run evs)\<close> using queueInv_run by blast
  define tr where \<open>tr = trace (run evs)\<close>
  define A where \<open>A = filter (\<lambda>e. jobOf e < j1) tr\<close>
  define B where \<open>B = filter (\<lambda>e. jobOf e = j1) tr\<close>
  define C where \<open>C = filter (\<lambda>e. j1 < jobOf e) tr\<close>
  from inv have srt: \<open>sorted (map jobOf tr)\<close>
    and below: \<open>\<forall>e \<in> set tr. jobOf e < k\<close>
    and lives: \<open>\<forall>j < k. \<exists>n. life j tr =
                     (if j \<in> set (inFlight (run evs)) then Start # replicate (Suc n) Attempt
                      else Start # replicate (Suc n) Attempt @ [Settlement])\<close>
    and fl: \<open>inFlight (run evs) = [] \<or> (0 < k \<and> inFlight (run evs) = [k - 1])\<close>
    by (auto simp add: queueInv_def tr_def)
  have tr: \<open>tr = pre @ Entry Start j2 t2 # post\<close>
    using assms(1) by (simp add: tr_def)
  then have \<open>Entry Start j2 t2 \<in> set tr\<close> by simp
  with below have \<open>jobOf (Entry Start j2 t2) < k\<close> by (rule bspec)
  then have \<open>j2 < k\<close> by simp
  with assms(2) have j1k: \<open>j1 < k\<close> and notlast: \<open>j1 \<noteq> k - 1\<close> by simp_all
  from fl notlast have idle: \<open>j1 \<notin> set (inFlight (run evs))\<close> by auto
  from lives j1k obtain n where
    \<open>life j1 tr = (if j1 \<in> set (inFlight (run evs)) then Start # replicate (Suc n) Attempt
                   else Start # replicate (Suc n) Attempt @ [Settlement])\<close>
    by blast
  with idle have kinds: \<open>map kindOf B = Start # replicate (Suc n) Attempt @ [Settlement]\<close>
    by (simp add: life_def B_def)
  have jobs: \<open>\<forall>e \<in> set B. jobOf e = j1\<close> by (simp add: B_def)
  from finished_life_entries [OF kinds jobs] obtain ta tb mid where
    B: \<open>B = Entry Start j1 ta # mid @ [Entry Settlement j1 tb]\<close> and ne: \<open>mid \<noteq> []\<close>
    and mid: \<open>\<forall>e \<in> set mid. kindOf e = Attempt \<and> jobOf e = j1\<close>
    by blast
  have Afree: \<open>\<forall>e \<in> set A. jobOf e \<noteq> j1\<close> and Alow: \<open>\<forall>e \<in> set A. jobOf e < j2\<close>
    using assms(2) by (auto simp add: A_def)
  have Cfree: \<open>\<forall>e \<in> set C. jobOf e \<noteq> j1\<close> by (auto simp add: C_def)
  have \<open>tr = A @ B @ C\<close>
    unfolding A_def B_def C_def using srt by (rule sorted_key_split)
  then have \<open>(A @ B) @ C = tr\<close> by simp
  then have eq: \<open>(A @ B) @ C = pre @ Entry Start j2 t2 # post\<close>
    using tr by (rule trans)
  have \<open>Entry Start j2 t2 \<notin> set (A @ B)\<close>
    using Alow jobs assms(2) by fastforce
  with eq have \<open>\<exists>c. pre = (A @ B) @ c \<and> C = c @ Entry Start j2 t2 # post\<close>
    by (rule append_eq_split_fresh)
  then obtain c where pre: \<open>pre = (A @ B) @ c\<close> and C: \<open>C = c @ Entry Start j2 t2 # post\<close>
    by blast
  have cfree: \<open>\<forall>e \<in> set (c @ post). jobOf e \<noteq> j1\<close>
    using Cfree unfolding C by auto
  have \<open>pre = A @ Entry Start j1 ta # mid @ Entry Settlement j1 tb # c\<close>
    using pre B by simp
  moreover have \<open>\<forall>e \<in> set (A @ c @ post). jobOf e \<noteq> j1\<close>
    using Afree cfree by auto
  ultimately show ?thesis using ne mid by blast
qed

text \<open>
  C1. Whatever the sequence of events (calls of \<open>enqueue\<close>, retries inside a unit of
  work, settlements, timers firing, time passing), at most one unit of work is in
  flight, and for jobs \<open>j1\<close> submitted before \<open>j2\<close>: at the point of the trace where the
  unit of work of \<open>j2\<close> starts, the trace before it contains the start of \<open>j1\<close>, then
  its attempts (at least one, retries included) and nothing else, then its settlement;
  and nothing of \<open>j1\<close> occurs anywhere else in the trace. Hence the units of work start
  in submission order, and one has fully settled before the next starts.
\<close>

theorem serial_queue_single_flight_fifo:
  \<open>length (inFlight (run evs)) \<le> 1 \<and>
   (\<forall>pre post j1 j2 t2.
      trace (run evs) = pre @ Entry Start j2 t2 # post \<and> j1 < j2 \<longrightarrow>
      (\<exists>ta tb p1 mid p3.
         pre = p1 @ Entry Start j1 ta # mid @ Entry Settlement j1 tb # p3 \<and>
         mid \<noteq> [] \<and>
         (\<forall>e \<in> set mid. kindOf e = Attempt \<and> jobOf e = j1) \<and>
         (\<forall>e \<in> set (p1 @ p3 @ post). jobOf e \<noteq> j1)))\<close>
proof (intro conjI allI impI)
  show \<open>length (inFlight (run evs)) \<le> 1\<close>
    by (rule inFlight_at_most_one)
next
  fix pre post j1 j2 t2
  assume h: \<open>trace (run evs) = pre @ Entry Start j2 t2 # post \<and> j1 < j2\<close>
  show \<open>\<exists>ta tb p1 mid p3.
         pre = p1 @ Entry Start j1 ta # mid @ Entry Settlement j1 tb # p3 \<and>
         mid \<noteq> [] \<and>
         (\<forall>e \<in> set mid. kindOf e = Attempt \<and> jobOf e = j1) \<and>
         (\<forall>e \<in> set (p1 @ p3 @ post). jobOf e \<noteq> j1)\<close>
    by (rule earlier_job_done_before_start [OF conjunct1 [OF h] conjunct2 [OF h]])
qed

lemma run_example:
  \<open>trace (run [Enqueue, Enqueue, Advance 400, Retry 0, Advance 300, Settle 0, Advance 1000, Fire]) =
     [Entry Start 0 0, Entry Attempt 0 0, Entry Attempt 0 400, Entry Settlement 0 700,
      Entry Start 1 1700, Entry Attempt 1 1700]\<close>
  by (simp add: run_def initialQueue_def enqueue_def processQueue_def retry_def settle_def fire_def)

theorem serial_queue_single_flight_fifo_witness:
  \<open>trace (run [Enqueue, Enqueue, Advance 400, Retry 0, Advance 300, Settle 0, Advance 1000, Fire]) =
     [Entry Start 0 0, Entry Attempt 0 0, Entry Attempt 0 400, Entry Settlement 0 700]
     @ Entry Start 1 1700 # [Entry Attempt 1 1700] \<and>
   (\<exists>ta tb p1 mid p3.
      [Entry Start 0 0, Entry Attempt 0 0, Entry Attempt 0 400, Entry Settlement 0 700] =
        p1 @ Entry Start 0 ta # mid @ Entry Settlement 0 tb # p3 \<and>
      mid \<noteq> [] \<and>
      (\<forall>e \<in> set mid. kindOf e = Attempt \<and> jobOf e = 0) \<and>
      (\<forall>e \<in> set (p1 @ p3 @ [Entry Attempt 1 1700]). jobOf e \<noteq> 0))\<close>
proof -
  have tr: \<open>trace (run [Enqueue, Enqueue, Advance 400, Retry 0, Advance 300, Settle 0, Advance 1000, Fire]) =
     [Entry Start 0 0, Entry Attempt 0 0, Entry Attempt 0 400, Entry Settlement 0 700]
     @ Entry Start 1 1700 # [Entry Attempt 1 1700]\<close>
    using run_example by simp
  have \<open>(0::nat) < 1\<close> by simp
  with tr have h: \<open>trace (run [Enqueue, Enqueue, Advance 400, Retry 0, Advance 300, Settle 0, Advance 1000, Fire]) =
     [Entry Start 0 0, Entry Attempt 0 0, Entry Attempt 0 400, Entry Settlement 0 700]
     @ Entry Start 1 1700 # [Entry Attempt 1 1700] \<and> (0::nat) < 1\<close>
    by (rule conjI)
  note inst = serial_queue_single_flight_fifo
         [of \<open>[Enqueue, Enqueue, Advance 400, Retry 0, Advance 300, Settle 0, Advance 1000, Fire]\<close>]
  from inst [THEN conjunct2, rule_format, OF h] tr show ?thesis
    by (rule conjI [rotated])
qed

text \<open>
  C2. The cool-down is not enforced. The \<open>finally\<close> block clears \<open>isProcessing\<close> before
  it arms the one-second timer, and \<open>enqueue\<close> calls \<open>processQueue\<close> at once: a call of
  \<open>enqueue\<close> during the cool-down starts the next unit of work right away, be it the
  job just submitted (first trace) or one that was already waiting (second trace). In
  both traces job 0 settles at 700 ms and job 1 starts at 710 ms.
\<close>

theorem cool_down_skipped_by_enqueue:
  \<open>trace (run [Enqueue, Advance 700, Settle 0, Advance 10, Enqueue]) =
     [Entry Start 0 0, Entry Attempt 0 0, Entry Settlement 0 700,
      Entry Start 1 710, Entry Attempt 1 710] \<and>
   trace (run [Enqueue, Enqueue, Advance 700, Settle 0, Advance 10, Enqueue]) =
     [Entry Start 0 0, Entry Attempt 0 0, Entry Settlement 0 700,
      Entry Start 1 710, Entry Attempt 1 710]\<close>
  by (simp add: run_def initialQueue_def enqueue_def processQueue_def retry_def settle_def fire_def)

section \<open>Properties of the response interpreter\<close>

lemma textBlocks_Nil: \<open>textBlocks [] = []\<close>
  by (simp add: textBlocks_def)

lemma textBlocks_Cons:
  \<open>textBlocks (p # ps) =
     (case inlineData p of
        Some d \<Rightarrow> []
      | None \<Rightarrow> (case partText p of None \<Rightarrow> [] | Some t \<Rightarrow> if t \<noteq> [] then [t] else []))
     @ textBlocks ps\<close>
  by (simp add: textBlocks_def)

lemma collectOverwrite_text:
  \<open>outputText (collectOverwrite ps out) =
     (if textBlocks ps = [] then outputText out else Some (last (textBlocks ps)))\<close>
  by (induction ps arbitrary: out)
     (auto simp add: textBlocks_Nil textBlocks_Cons split: option.splits)

lemma collectConcat_text:
  \<open>outputText (collectConcat ps out) =
     (if textBlocks ps = [] then outputText out
      else Some ((case outputText out of None \<Rightarrow> [] | Some prev \<Rightarrow> prev) @ concat (textBlocks ps)))\<close>
  by (induction ps arbitrary: out)
     (auto simp add: textBlocks_Nil textBlocks_Cons split: option.splits)

lemma imageBlocks_Nil: \<open>imageBlocks [] = []\<close>
  by (simp add: imageBlocks_def)

lemma imageBlocks_Cons:
  \<open>imageBlocks (p # ps) =
     (case inlineData p of Some d \<Rightarrow> [dataUrl d] | None \<Rightarrow> []) @ imageBlocks ps\<close>
  by (simp add: imageBlocks_def)

lemma collectOverwrite_image:
  \<open>imageUrl (collectOverwrite ps out) =
     (if imageBlocks ps = [] then imageUrl out else Some (last (imageBlocks ps)))\<close>
  by (induction ps arbitrary: out)
     (auto simp add: imageBlocks_Nil imageBlocks_Cons split: option.splits)

lemma collectConcat_image:
  \<open>imageUrl (collectConcat ps out) =
     (if imageBlocks ps = [] then imageUrl out else Some (last (imageBlocks ps)))\<close>
  by (induction ps arbitrary: out)
     (auto simp add: imageBlocks_Nil imageBlocks_Cons split: option.splits)

lemma imageBlocks_nonempty_urls: \<open>u \<in> set (imageBlocks ps) \<Longrightarrow> u \<noteq> []\<close>
  by (auto simp add: imageBlocks_def dataUrl_def split: option.splits)

lemma collectOverwrite_result:
  assumes \<open>imageBlocks ps \<noteq> []\<close>
  shows \<open>collectOverwrite ps \<lparr>imageUrl = None, outputText = None\<rparr> =
           \<lparr>imageUrl = Some (last (imageBlocks ps)),
            outputText = (if textBlocks ps = [] then None else Some (last (textBlocks ps)))\<rparr>
         \<and> \<not> noImage (collectOverwrite ps \<lparr>imageUrl = None, outputText = None\<rparr>)\<close>
proof -
  have \<open>last (imageBlocks ps) \<noteq> []\<close>
    using assms imageBlocks_nonempty_urls last_in_set by blast
  then show ?thesis
    using assms
    by (simp add: GeminiOutput.equality collectOverwrite_image collectOverwrite_text noImage_def)
qed

lemma collectConcat_result:
  assumes \<open>imageBlocks ps \<noteq> []\<close>
  shows \<open>collectConcat ps \<lparr>imageUrl = None, outputText = None\<rparr> =
           \<lparr>imageUrl = Some (last (imageBlocks ps)),
            outputText = (if textBlocks ps = [] then None else Some (concat (textBlocks ps)))\<rparr>
         \<and> \<not> noImage (collectConcat ps \<lparr>imageUrl = None, outputText = None\<rparr>)\<close>
proof -
  have \<open>last (imageBlocks ps) \<noteq> []\<close>
    using assms imageBlocks_nonempty_urls last_in_set by blast
  then show ?thesis
    using assms
    by (simp add: GeminiOutput.equality collectConcat_image collectConcat_text noImage_def)
qed

lemma inpaintImage_returns:
  assumes \<open>firstCandidate r = Some c\<close> and \<open>contentParts c = Some ps\<close>
    and \<open>finishReason c \<in> {None, Some [], Some ''STOP'', Some ''MAX_TOKENS''}\<close>
    and \<open>imageBlocks ps \<noteq> []\<close>
  shows \<open>inpaintImage (Inr r) =
           Inr \<lparr>imageUrl = Some (last (imageBlocks ps)),
                outputText = (if textBlocks ps = [] then None else Some (last (textBlocks ps)))\<rparr>\<close>
  using assms(1,2,3) collectOverwrite_result [OF assms(4)]
  by (auto simp add: inpaintImage_def inpaintImage_try_def Let_def)

lemma manipulateScene_returns:
  assumes \<open>firstCandidate r = Some c\<close> and \<open>contentParts c = Some ps\<close>
    and \<open>finishReason c \<in> {None, Some [], Some ''STOP'', Some ''MAX_TOKENS''}\<close>
    and \<open>imageBlocks ps \<noteq> []\<close>
  shows \<open>manipulateScene (Inr r) =
           Inr \<lparr>imageUrl = Some (last (imageBlocks ps)),
                outputText = (if textBlocks ps = [] then None else Some (last (textBlocks ps)))\<rparr>\<close>
  using assms(1,2,3) collectOverwrite_result [OF assms(4)]
  by (auto simp add: manipulateScene_def manipulateScene_try_def Let_def)

lemma generateStudioPhoto_returns:
  assumes \<open>firstCandidate r = Some c\<close> and \<open>contentParts c = Some ps\<close>
    and \<open>finishReason c \<in> {None, Some [], Some ''STOP'', Some ''MAX_TOKENS''}\<close>
    and \<open>imageBlocks ps \<noteq> []\<close>
  shows \<open>generateStudioPhoto (Inr r) =
           Inr \<lparr>imageUrl = Some (last (imageBlocks ps)),
                outputText = (if textBlocks ps = [] then None else Some (concat (textBlocks ps)))\<rparr>\<close>
  using assms(1,2,3) collectConcat_result [OF assms(4)]
  by (auto simp add: generateStudioPhoto_def generateStudioPhoto_try_def Let_def)

lemma swapFace_returns:
  assumes \<open>firstCandidate r = Some c\<close> and \<open>contentParts c = Some ps\<close>
    and \<open>finishReason c \<in> {None, Some [], Some ''STOP'', Some ''MAX_TOKENS''}\<close>
    and \<open>imageBlocks ps \<noteq> []\<close>
  shows \<open>swapFace (Inr r) =
           Inr \<lparr>imageUrl = Some (last (imageBlocks ps)),
                outputText = (if textBlocks ps = [] then None else Some (concat (textBlocks ps)))\<rparr>\<close>
  using assms(1,2,3) collectConcat_result [OF assms(4)]
  by (auto simp add: swapFace_def swapFace_try_def Let_def)

text \<open>
  C9 (amended). On a successful response (accepted finish reason, at least one image
  block) with text blocks, \<open>inpaintImage\<close> and \<open>manipulateScene\<close> (reperspective)
  overwrite the output text with each successive text block, so the result carries the
  last one only, while \<open>generateStudioPhoto\<close> (composite-generate) and \<open>swapFace\<close>
  (face-swap) concatenate all text blocks. Face-swap is on the concatenating side, not
  on the overwriting side.
\<close>

theorem text_blocks_overwritten_or_concatenated:
  assumes \<open>firstCandidate r = Some c\<close> and \<open>contentParts c = Some ps\<close>
    and \<open>finishReason c \<in> {None, Some [], Some ''STOP'', Some ''MAX_TOKENS''}\<close>
    and \<open>imageBlocks ps \<noteq> []\<close> and \<open>textBlocks ps \<noteq> []\<close>
  shows \<open>inpaintImage (Inr r) =
           Inr \<lparr>imageUrl = Some (last (imageBlocks ps)), outputText = Some (last (textBlocks ps))\<rparr> \<and>
         manipulateScene (Inr r) =
           Inr \<lparr>imageUrl = Some (last (imageBlocks ps)), outputText = Some (last (textBlocks ps))\<rparr> \<and>
         generateStudioPhoto (Inr r) =
           Inr \<lparr>imageUrl = Some (last (imageBlocks ps)), outputText = Some (concat (textBlocks ps))\<rparr> \<and>
         swapFace (Inr r) =
           Inr \<lparr>imageUrl = Some (last (imageBlocks ps)), outputText = Some (concat (textBlocks ps))\<rparr>\<close>
  using inpaintImage_returns [OF assms(1-4)] manipulateScene_returns [OF assms(1-4)]
        generateStudioPhoto_returns [OF assms(1-4)] swapFace_returns [OF assms(1-4)] assms(5)
  by simp

theorem text_blocks_overwritten_or_concatenated_witness:
  \<open>inpaintImage (Inr \<lparr>candidates = Some [\<lparr>finishReason = Some ''STOP'', safetyRatings = None,
        contentParts = Some [\<lparr>inlineData = None, partText = Some ''first''\<rparr>,
                             \<lparr>inlineData = Some (''image/png'', ''AAAA''), partText = None\<rparr>,
                             \<lparr>inlineData = None, partText = Some ''second''\<rparr>]\<rparr>],
      responseText = None\<rparr>)
     = Inr \<lparr>imageUrl = Some ''data:image/png;base64,AAAA'', outputText = Some ''second''\<rparr> \<and>
   generateStudioPhoto (Inr \<lparr>candidates = Some [\<lparr>finishReason = Some ''STOP'', safetyRatings = None,
        contentParts = Some [\<lparr>inlineData = None, partText = Some ''first''\<rparr>,
                             \<lparr>inlineData = Some (''image/png'', ''AAAA''), partText = None\<rparr>,
                             \<lparr>inlineData = None, partText = Some ''second''\<rparr>]\<rparr>],
      responseText = None\<rparr>)
     = Inr \<lparr>imageUrl = Some ''data:image/png;base64,AAAA'', outputText = Some ''firstsecond''\<rparr>\<close>
  using text_blocks_overwritten_or_concatenated
    [of \<open>\<lparr>candidates = Some [\<lparr>finishReason = Some ''STOP'', safetyRatings = None,
        contentParts = Some [\<lparr>inlineData = None, partText = Some ''first''\<rparr>,
                             \<lparr>inlineData = Some (''image/png'', ''AAAA''), partText = None\<rparr>,
                             \<lparr>inlineData = None, partText = Some ''second''\<rparr>]\<rparr>],
      responseText = None\<rparr>\<close>
        \<open>\<lparr>finishReason = Some ''STOP'', safetyRatings = None,
        contentParts = Some [\<lparr>inlineData = None, partText = Some ''first''\<rparr>,
                             \<lparr>inlineData = Some (''image/png'', ''AAAA''), partText = None\<rparr>,
                             \<lparr>inlineData = None, partText = Some ''second''\<rparr>]\<rparr>\<close>
        \<open>[\<lparr>inlineData = None, partText = Some ''first''\<rparr>,
                             \<lparr>inlineData = Some (''image/png'', ''AAAA''), partText = None\<rparr>,
                             \<lparr>inlineData = None, partText = Some ''second''\<rparr>]\<close>]
  by (simp add: firstCandidate_def textBlocks_def imageBlocks_def dataUrl_def)

text \<open>
  C9 as stated fails for face-swap: given the text blocks \<open>first\<close> and \<open>second\<close>,
  \<open>swapFace\<close> returns their concatenation, not the last block.
\<close>

theorem swapFace_concatenates_counterexample:
  \<open>swapFace (Inr \<lparr>candidates = Some [\<lparr>finishReason = Some ''STOP'', safetyRatings = None,
        contentParts = Some [\<lparr>inlineData = None, partText = Some ''first''\<rparr>,
                             \<lparr>inlineData = Some (''image/png'', ''AAAA''), partText = None\<rparr>,
                             \<lparr>inlineData = None, partText = Some ''second''\<rparr>]\<rparr>],
      responseText = None\<rparr>)
   = Inr \<lparr>imageUrl = Some ''data:image/png;base64,AAAA'', outputText = Some ''firstsecond''\<rparr>
   \<and> ''firstsecond'' \<noteq> ''second''\<close>
  by (simp add: swapFace_def swapFace_try_def firstCandidate_def noImage_def dataUrl_def)

lemma map_of_update_other:
  \<open>k \<noteq> k' \<Longrightarrow> map_of (AList.update k' v al) k = map_of al k\<close>
  by (simp add: AList.update_conv')

lemma analyzeArtReference_try_object:
  assumes \<open>responseText r = Some t\<close> and \<open>parse (trim t) = Some (JObj original)\<close>
  shows \<open>analyzeArtReference_try parse r =
           Inr (if knownLightingStyle (map_of original ''lightingStyle'') then original
                else AList.update ''lightingStyle'' (JStr ''None'') original)\<close>
  using assms by (simp add: analyzeArtReference_try_def)

lemma analyzeArtReference_try_array:
  assumes \<open>responseText r = Some t\<close> and \<open>parse (trim t) = Some (JArr xs)\<close>
  shows \<open>analyzeArtReference_try parse r =
           Inr (if knownLightingStyle (map_of (arrayProps xs) ''lightingStyle'') then arrayProps xs
                else AList.update ''lightingStyle'' (JStr ''None'') (arrayProps xs))\<close>
  using assms by (simp add: analyzeArtReference_try_def)

lemma analyzeArtReference_returns_cases:
  assumes \<open>analyzeArtReference parse settled = Inr props\<close>
  shows \<open>\<exists>r t original.
           settled = Inr r \<and> responseText r = Some t \<and>
           (parse (trim t) = Some (JObj original) \<or>
            (\<exists>xs. parse (trim t) = Some (JArr xs) \<and> original = arrayProps xs)) \<and>
           props = (if knownLightingStyle (map_of original ''lightingStyle'') then original
                    else AList.update ''lightingStyle'' (JStr ''None'') original)\<close>
  using assms
  by (auto simp add: analyzeArtReference_def analyzeArtReference_try_def
      split: sum.splits option.splits json.splits if_splits)

lemma validated_lightingStyle:
  \<open>map_of (if knownLightingStyle (map_of original ''lightingStyle'') then original
           else AList.update ''lightingStyle'' (JStr ''None'') original) ''lightingStyle'' =
     (case map_of original ''lightingStyle'' of
        Some (JStr s) \<Rightarrow> if s \<in> set LIGHTING_STYLES then Some (JStr s) else Some (JStr ''None'')
      | _ \<Rightarrow> Some (JStr ''None''))\<close>
  by (simp add: knownLightingStyle_def AList.update_conv' split: option.splits json.splits)

text \<open>
  C10. Whenever \<open>analyzeArtReference\<close> returns, it returns the object parsed from the
  trimmed response text, with every property other than \<open>lightingStyle\<close> as parsed, and
  with a \<open>lightingStyle\<close> that is a member of \<open>LIGHTING_STYLES\<close>: a parsed value that is a
  string of the list is kept (the object is returned untouched), and any other value
  (a string outside the list, a value that is no string, or no value at all) has been
  replaced by \<open>None\<close>, itself a member of the list.
\<close>

theorem analyzeArtReference_lightingStyle_known:
  assumes \<open>analyzeArtReference parse settled = Inr props\<close>
  shows \<open>\<exists>r t original.
           settled = Inr r \<and> responseText r = Some t \<and>
           (parse (trim t) = Some (JObj original) \<or>
            (\<exists>xs. parse (trim t) = Some (JArr xs) \<and> original = arrayProps xs)) \<and>
           map_of props ''lightingStyle'' =
             (case map_of original ''lightingStyle'' of
                Some (JStr s) \<Rightarrow>
                  if s \<in> set LIGHTING_STYLES then Some (JStr s) else Some (JStr ''None'')
              | _ \<Rightarrow> Some (JStr ''None'')) \<and>
           (\<exists>s. map_of props ''lightingStyle'' = Some (JStr s) \<and> s \<in> set LIGHTING_STYLES) \<and>
           (\<forall>k. k \<noteq> ''lightingStyle'' \<longrightarrow> map_of props k = map_of original k) \<and>
           (\<forall>s. map_of original ''lightingStyle'' = Some (JStr s) \<and> s \<in> set LIGHTING_STYLES
                \<longrightarrow> props = original) \<and>
           ''None'' \<in> set LIGHTING_STYLES\<close>
proof -
  from analyzeArtReference_returns_cases [OF assms] obtain r t original where
    s: \<open>settled = Inr r\<close> and t: \<open>responseText r = Some t\<close>
    and parsed: \<open>parse (trim t) = Some (JObj original) \<or>
            (\<exists>xs. parse (trim t) = Some (JArr xs) \<and> original = arrayProps xs)\<close>
    and props: \<open>props = (if knownLightingStyle (map_of original ''lightingStyle'') then original
                    else AList.update ''lightingStyle'' (JStr ''None'') original)\<close>
    by blast
  have style: \<open>map_of props ''lightingStyle'' =
             (case map_of original ''lightingStyle'' of
                Some (JStr s) \<Rightarrow>
                  if s \<in> set LIGHTING_STYLES then Some (JStr s) else Some (JStr ''None'')
              | _ \<Rightarrow> Some (JStr ''None''))\<close>
    unfolding props by (rule validated_lightingStyle)
  have none: \<open>''None'' \<in> set LIGHTING_STYLES\<close>
    by (simp add: LIGHTING_STYLES_def)
  have member: \<open>\<exists>s. map_of props ''lightingStyle'' = Some (JStr s) \<and> s \<in> set LIGHTING_STYLES\<close>
    unfolding style using none by (auto split: option.splits json.splits)
  have others: \<open>\<forall>k. k \<noteq> ''lightingStyle'' \<longrightarrow> map_of props k = map_of original k\<close>
    unfolding props by (simp add: map_of_update_other)
  have kept: \<open>\<forall>s. map_of original ''lightingStyle'' = Some (JStr s) \<and> s \<in> set LIGHTING_STYLES
                \<longrightarrow> props = original\<close>
    unfolding props by (simp add: knownLightingStyle_def)
  from s t parsed style member others kept none
  have \<open>settled = Inr r \<and> responseText r = Some t \<and>
           (parse (trim t) = Some (JObj original) \<or>
            (\<exists>xs. parse (trim t) = Some (JArr xs) \<and> original = arrayProps xs)) \<and>
           map_of props ''lightingStyle'' =
             (case map_of original ''lightingStyle'' of
                Some (JStr s) \<Rightarrow>
                  if s \<in> set LIGHTING_STYLES then Some (JStr s) else Some (JStr ''None'')
              | _ \<Rightarrow> Some (JStr ''None'')) \<and>
           (\<exists>s. map_of props ''lightingStyle'' = Some (JStr s) \<and> s \<in> set LIGHTING_STYLES) \<and>
           (\<forall>k. k \<noteq> ''lightingStyle'' \<longrightarrow> map_of props k = map_of original k) \<and>
           (\<forall>s. map_of original ''lightingStyle'' = Some (JStr s) \<and> s \<in> set LIGHTING_STYLES
                \<longrightarrow> props = original) \<and>
           ''None'' \<in> set LIGHTING_STYLES\<close>
    by (intro conjI)
  then show ?thesis
    by (intro exI)
qed

theorem analyzeArtReference_lightingStyle_known_witness:
  \<open>analyzeArtReference
     (\<lambda>s. if s = ''{"styleDescription":"oil","lightingStyle":"Neon Glow","actionPrompt":"sits"}''
          then Some (JObj [(''styleDescription'', JStr ''oil''), (''lightingStyle'', JStr ''Neon Glow''),
                           (''actionPrompt'', JStr ''sits'')])
          else None)
     (Inr \<lparr>candidates = None,
           responseText = Some '' {"styleDescription":"oil","lightingStyle":"Neon Glow","actionPrompt":"sits"} ''\<rparr>)
     = Inr [(''styleDescription'', JStr ''oil''), (''lightingStyle'', JStr ''None''),
            (''actionPrompt'', JStr ''sits'')] \<and>
   analyzeArtReference
     (\<lambda>s. if s = ''{"styleDescription":"oil","lightingStyle":"Loop Lighting"}''
          then Some (JObj [(''styleDescription'', JStr ''oil''), (''lightingStyle'', JStr ''Loop Lighting'')])
          else None)
     (Inr \<lparr>candidates = None,
           responseText = Some ''{"styleDescription":"oil","lightingStyle":"Loop Lighting"}''\<rparr>)
     = Inr [(''styleDescription'', JStr ''oil''), (''lightingStyle'', JStr ''Loop Lighting'')] \<and>
   (\<exists>s. map_of [(''styleDescription'', JStr ''oil''), (''lightingStyle'', JStr ''None''),
                 (''actionPrompt'', JStr ''sits'')] ''lightingStyle'' = Some (JStr s) \<and>
        s \<in> set LIGHTING_STYLES)\<close>
proof -
  have replaced: \<open>analyzeArtReference
     (\<lambda>s. if s = ''{"styleDescription":"oil","lightingStyle":"Neon Glow","actionPrompt":"sits"}''
          then Some (JObj [(''styleDescription'', JStr ''oil''), (''lightingStyle'', JStr ''Neon Glow''),
                           (''actionPrompt'', JStr ''sits'')])
          else None)
     (Inr \<lparr>candidates = None,
           responseText = Some '' {"styleDescription":"oil","lightingStyle":"Neon Glow","actionPrompt":"sits"} ''\<rparr>)
     = Inr [(''styleDescription'', JStr ''oil''), (''lightingStyle'', JStr ''None''),
            (''actionPrompt'', JStr ''sits'')]\<close>
    by (simp add: analyzeArtReference_def analyzeArtReference_try_def trim_def isWhiteSpace_def
          knownLightingStyle_def LIGHTING_STYLES_def)
  have kept: \<open>analyzeArtReference
     (\<lambda>s. if s = ''{"styleDescription":"oil","lightingStyle":"Loop Lighting"}''
          then Some (JObj [(''styleDescription'', JStr ''oil''), (''lightingStyle'', JStr ''Loop Lighting'')])
          else None)
     (Inr \<lparr>candidates = None,
           responseText = Some ''{"styleDescription":"oil","lightingStyle":"Loop Lighting"}''\<rparr>)
     = Inr [(''styleDescription'', JStr ''oil''), (''lightingStyle'', JStr ''Loop Lighting'')]\<close>
    by (simp add: analyzeArtReference_def analyzeArtReference_try_def trim_def isWhiteSpace_def
          knownLightingStyle_def LIGHTING_STYLES_def)
  from analyzeArtReference_lightingStyle_known [OF replaced]
  have \<open>\<exists>s. map_of [(''styleDescription'', JStr ''oil''), (''lightingStyle'', JStr ''None''),
                 (''actionPrompt'', JStr ''sits'')] ''lightingStyle'' = Some (JStr s) \<and>
        s \<in> set LIGHTING_STYLES\<close>
    by (elim exE conjE, intro exI conjI)
  with replaced kept show ?thesis
    by (intro conjI)
qed

subsection \<open>Safety-blocked responses\<close>

text \<open>
  Five of the six operations turn a first candidate whose finish reason is \<open>SAFETY\<close> or
  \<open>IMAGE_SAFETY\<close> into an error whose message names the blocked categories, or
  \<open>unspecified\<close> when there is none to name.
\<close>

lemma safety_reason_not_accepted:
  \<open>reason \<in> {''SAFETY'', ''IMAGE_SAFETY''} \<Longrightarrow>
   reason \<noteq> [] \<and> reason \<noteq> ''STOP'' \<and> reason \<noteq> ''MAX_TOKENS'' \<and>
   (reason = ''SAFETY'' \<or> reason = ''IMAGE_SAFETY'')\<close>
  by auto

lemma generateStudioPhoto_safety_blocked:
  assumes \<open>firstCandidate r = Some c\<close> and \<open>finishReason c = Some reason\<close>
    and \<open>reason \<in> {''SAFETY'', ''IMAGE_SAFETY''}\<close>
  shows \<open>generateStudioPhoto (Inr r) =
           Inl (''An error occurred while communicating with the AI. Details: Request blocked for safety reasons: ''
                @ blockedSummary c
                @ ''. This can sometimes happen with portraits. Try using a different reference image or adjusting your text prompts.'')\<close>
  using assms(1,2) safety_reason_not_accepted [OF assms(3)]
  by (auto simp add: generateStudioPhoto_def generateStudioPhoto_try_def)

lemma inpaintImage_safety_blocked:
  assumes \<open>firstCandidate r = Some c\<close> and \<open>finishReason c = Some reason\<close>
    and \<open>reason \<in> {''SAFETY'', ''IMAGE_SAFETY''}\<close>
  shows \<open>inpaintImage (Inr r) =
           Inl (''An error occurred during in-painting. Details: In-painting request blocked for safety reasons: ''
                @ blockedSummary c
                @ ''. This can sometimes happen with portraits. Try using a different reference image or adjusting your text prompts.'')\<close>
  using assms(1,2) safety_reason_not_accepted [OF assms(3)]
  by (auto simp add: inpaintImage_def inpaintImage_try_def)

lemma describeImage_safety_blocked:
  assumes \<open>firstCandidate r = Some c\<close> and \<open>finishReason c = Some reason\<close>
    and \<open>reason \<in> {''SAFETY'', ''IMAGE_SAFETY''}\<close>
  shows \<open>describeImage (Inr r) =
           Inl (''Failed to generate image description. Details: Image description blocked for safety reasons: ''
                @ blockedSummary c @ ''. Please use a different image.'')\<close>
  using assms(1,2) safety_reason_not_accepted [OF assms(3)]
  by (auto simp add: describeImage_def describeImage_try_def)

lemma swapFace_safety_blocked:
  assumes \<open>firstCandidate r = Some c\<close> and \<open>finishReason c = Some reason\<close>
    and \<open>reason \<in> {''SAFETY'', ''IMAGE_SAFETY''}\<close>
  shows \<open>swapFace (Inr r) =
           Inl (''An error occurred while swapping the face. Details: Face swap request blocked for safety reasons: ''
                @ blockedSummary c
                @ ''. This can sometimes happen with portraits. Try using a different reference image.'')\<close>
  using assms(1,2) safety_reason_not_accepted [OF assms(3)]
  by (auto simp add: swapFace_def swapFace_try_def)

lemma manipulateScene_safety_blocked:
  assumes \<open>firstCandidate r = Some c\<close> and \<open>finishReason c = Some reason\<close>
    and \<open>reason \<in> {''SAFETY'', ''IMAGE_SAFETY''}\<close>
  shows \<open>manipulateScene (Inr r) =
           Inl (''An error occurred during scene manipulation. Details: Request blocked for safety reasons: ''
                @ blockedSummary c @ ''. Please adjust your prompt or use a different image.'')\<close>
  using assms(1,2) safety_reason_not_accepted [OF assms(3)]
  by (auto simp add: manipulateScene_def manipulateScene_try_def)

lemma blockedSummary_example:
  \<open>blockedSummary \<lparr>finishReason = Some ''SAFETY'',
      safetyRatings = Some [\<lparr>category = ''HARM_CATEGORY_HARASSMENT'', blocked = False\<rparr>,
                            \<lparr>category = ''HARM_CATEGORY_SEXUALLY_EXPLICIT'', blocked = True\<rparr>,
                            \<lparr>category = ''HARM_CATEGORY_DANGEROUS_CONTENT'', blocked = True\<rparr>],
      contentParts = None\<rparr> = ''SEXUALLY_EXPLICIT, DANGEROUS_CONTENT''\<close>
  by (simp add: blockedSummary_def blockedRatings_def)

text \<open>
  C5. \<open>analyzeArtReference\<close> is the one operation that never looks at the finish
  reason. On a response whose first candidate has finish reason \<open>SAFETY\<close> and a blocked
  category, it does not throw the safety error its five siblings throw: when the
  response carries no text it fails with the \<open>TypeError\<close> of reading \<open>trim\<close> of
  \<open>undefined\<close>, and when the response carries text that parses it returns the analysis.
\<close>

theorem analyzeArtReference_returns_despite_safety:
  \<open>analyzeArtReference parse
     (Inr \<lparr>candidates = Some [\<lparr>finishReason = Some ''SAFETY'',
                                 safetyRatings = Some [\<lparr>category = ''HARM_CATEGORY_DANGEROUS_CONTENT'',
                                                         blocked = True\<rparr>],
                                 contentParts = None\<rparr>],
           responseText = None\<rparr>)
   = Inl TypeError \<and>
   analyzeArtReference
     (\<lambda>s. if s = ''{"styleDescription":"oil","integrationPlan":"blend","lightingStyle":"Loop Lighting","actionPrompt":"sits"}''
          then Some (JObj [(''styleDescription'', JStr ''oil''), (''integrationPlan'', JStr ''blend''),
                           (''lightingStyle'', JStr ''Loop Lighting''), (''actionPrompt'', JStr ''sits'')])
          else None)
     (Inr \<lparr>candidates = Some [\<lparr>finishReason = Some ''SAFETY'',
                                 safetyRatings = Some [\<lparr>category = ''HARM_CATEGORY_DANGEROUS_CONTENT'',
                                                         blocked = True\<rparr>],
                                 contentParts = Some [\<lparr>inlineData = None, partText = Some ''{"styleDescription":"oil","integrationPlan":"blend","lightingStyle":"Loop Lighting","actionPrompt":"sits"}''\<rparr>]\<rparr>],
           responseText = Some ''{"styleDescription":"oil","integrationPlan":"blend","lightingStyle":"Loop Lighting","actionPrompt":"sits"}''\<rparr>)
   = Inr [(''styleDescription'', JStr ''oil''), (''integrationPlan'', JStr ''blend''),
          (''lightingStyle'', JStr ''Loop Lighting''), (''actionPrompt'', JStr ''sits'')]\<close>
  by (simp add: analyzeArtReference_def analyzeArtReference_try_def trim_def isWhiteSpace_def
        knownLightingStyle_def LIGHTING_STYLES_def)

section \<open>Properties of the prompt synthesizer\<close>

declare showNat.simps [simp del]

lemma startsWith_iff: \<open>startsWith s n \<longleftrightarrow> (\<exists>b. s = n @ b)\<close>
  by (induction s n rule: startsWith.induct) auto

lemma includes_str_iff: \<open>includes_str s n \<longleftrightarrow> (\<exists>a b. s = a @ n @ b)\<close>
proof (induction s)
  case Nil
  then show ?case by auto
next
  case (Cons x xs)
  show ?case
  proof
    assume \<open>includes_str (x # xs) n\<close>
    then consider \<open>startsWith (x # xs) n\<close> | \<open>includes_str xs n\<close> by auto
    then show \<open>\<exists>a b. x # xs = a @ n @ b\<close>
    proof cases
      case 1
      then obtain b where \<open>x # xs = n @ b\<close> using startsWith_iff by blast
      then have \<open>x # xs = [] @ n @ b\<close> by simp
      then show ?thesis by blast
    next
      case 2
      then obtain a b where \<open>xs = a @ n @ b\<close> using Cons.IH by blast
      then have \<open>x # xs = (x # a) @ n @ b\<close> by simp
      then show ?thesis by blast
    qed
  next
    assume \<open>\<exists>a b. x # xs = a @ n @ b\<close>
    then obtain a b where ab: \<open>x # xs = a @ n @ b\<close> by blast
    show \<open>includes_str (x # xs) n\<close>
    proof (cases a)
      case Nil
      with ab have \<open>startsWith (x # xs) n\<close> using startsWith_iff by auto
      then show ?thesis by simp
    next
      case (Cons y ys)
      with ab have \<open>xs = ys @ n @ b\<close> by simp
      then have \<open>includes_str xs n\<close> using Cons.IH by blast
      then show ?thesis by simp
    qed
  qed
qed

lemma includes_strI: \<open>includes_str (a @ n @ b) n\<close>
  using includes_str_iff by blast

lemma includes_str_append:
  \<open>includes_str s n \<Longrightarrow> includes_str (a @ s @ b) n\<close>
proof -
  assume \<open>includes_str s n\<close>
  then obtain c d where \<open>s = c @ n @ d\<close> using includes_str_iff by blast
  then have \<open>a @ s @ b = (a @ c) @ n @ (d @ b)\<close> by simp
  then show ?thesis using includes_str_iff by blast
qed

lemma join_member_split: \<open>x \<in> set xs \<Longrightarrow> \<exists>a b. join sep xs = a @ x @ b\<close>
proof (induction sep xs rule: join.induct)
  case (1 sep)
  then show ?case by simp
next
  case (2 sep y)
  then have \<open>join sep [y] = [] @ x @ []\<close> by simp
  then show ?case by blast
next
  case (3 sep y z zs)
  show ?case
  proof (cases \<open>x = y\<close>)
    case True
    then have \<open>join sep (y # z # zs) = [] @ x @ (sep @ join sep (z # zs))\<close> by simp
    then show ?thesis by blast
  next
    case False
    with 3 obtain a b where \<open>join sep (z # zs) = a @ x @ b\<close> by auto
    then have \<open>join sep (y # z # zs) = (y @ sep @ a) @ x @ b\<close> by simp
    then show ?thesis by blast
  qed
qed

lemma includes_str_join:
  assumes \<open>x \<in> set xs\<close> and \<open>includes_str x n\<close>
  shows \<open>includes_str (join sep xs) n\<close>
proof -
  obtain a b where \<open>join sep xs = a @ x @ b\<close> using join_member_split assms(1) by blast
  then show ?thesis using includes_str_append [OF assms(2)] by simp
qed

lemma instructionSet_default:
  \<open>instructionSet (defaultParams src) =
     [masterPrompt,
      ''\<newline>**1. SUBJECT & IDENTITY (PARAMOUNT PRIORITY)**\<newline>- The person in the [Subject] image is/are your primary subject.\<newline>- **CRITICAL:** You MUST perfectly preserve their facial features, structure, and identity. The final image must be unmistakably the same person.'',
      ''\<newline>**5. CAMERA & LENS SETTINGS**\<newline>- **CRITICAL:** Simulate a professional camera with these settings: Color Temperature: 5500K (neutral daylight light).'',
      finalOutputRequirements]\<close>
  by (simp add: instructionSet_def defaultParams_def subjectInstructions_def filterBoolean_def
        preserveIdentityDirective_def subjectNoun_def compoInstructions_def finalTouches_def
        cameraDetails_def cameraSection_def tempDesc_def showInt_def showNat.simps digitChar_def)

lemma parts_default:
  \<open>generateStudioPhoto_parts (defaultParams src) =
     [TextPart (join ''\<newline>'' (instructionSet (defaultParams src))),
      TextPart ''This is the [Subject] image:'',
      fileToGenerativePart src]\<close>
  by (simp add: generateStudioPhoto_parts_def imageBlock_def defaultParams_def)

lemma synthesizedPrompt_sectioned:
  assumes \<open>\<not> includes_str (stylePrompt p) ''Flyer Design''\<close>
    and \<open>\<not> includes_str (stylePrompt p) ''Thumbnail Design''\<close>
  shows \<open>synthesizedPrompt p = join ''\<newline>'' (instructionSet p)\<close>
  using assms by (simp add: synthesizedPrompt_def generateStudioPhoto_parts_def)

lemma subjectInfluenceDirective_nonempty: \<open>subjectInfluenceDirective p \<noteq> []\<close>
  by (simp add: subjectInfluenceDirective_def)

lemma subjectInfluenceDirective_in_prompt:
  assumes \<open>artReferenceImage p = Some a\<close>
    and \<open>\<not> includes_str (stylePrompt p) ''Flyer Design''\<close>
    and \<open>\<not> includes_str (stylePrompt p) ''Thumbnail Design''\<close>
    and \<open>includes_str (subjectInfluenceDirective p) n\<close>
  shows \<open>includes_str (synthesizedPrompt p) n\<close>
proof -
  have \<open>subjectInfluenceDirective p \<in> set (filterBoolean
       [''\<newline>**1. SUBJECT & IDENTITY (PARAMOUNT PRIORITY)**'',
        ''- The '' @ subjectNoun p @ '' in the [Subject] image is/are your primary subject.'',
        subjectInfluenceDirective p,
        (if subjectPrompt p \<noteq> [] then
           ''- Apply these modifications to the '' @ subjectNounPlural p @ '', while maintaining their identity: "'' @ subjectPrompt p @ ''".''
         else []),
        (if faceReferenceImage p \<noteq> None then
           ''- **CRITICAL FACE OVERRIDE:** The [Face Reference] image provides the definitive likeness of the subject. Use this image to ensure the face is a perfect match, overriding the face from the [Subject] image if necessary.''
         else [])])\<close>
    using subjectInfluenceDirective_nonempty [of p] by (simp add: filterBoolean_def)
  then have \<open>includes_str (subjectInstructions p) n\<close>
    using assms(1,4) by (simp add: subjectInstructions_def includes_str_join)
  moreover have \<open>subjectInstructions p \<in> set (instructionSet p)\<close>
    by (simp add: instructionSet_def)
  ultimately have \<open>includes_str (join ''\<newline>'' (instructionSet p)) n\<close>
    by (rule includes_str_join [rotated])
  then show ?thesis
    using synthesizedPrompt_sectioned [OF assms(2,3)] by simp
qed

lemma directive_has_figure:
  \<open>includes_str (subjectInfluenceDirective p)
     (''SUBJECT INFLUENCE '' @ showInt (subjectInfluence p) @ ''/100'')\<close>
proof -
  have \<open>\<exists>a b. subjectInfluenceDirective p =
      a @ (''SUBJECT INFLUENCE '' @ showInt (subjectInfluence p) @ ''/100'') @ b\<close>
    unfolding subjectInfluenceDirective_def
    by (rule exI [of _ \<open>''- **CRITICAL - ''\<close>]) auto
  then show ?thesis using includes_str_iff by blast
qed

lemma directive_has_match_sentence:
  \<open>includes_str (subjectInfluenceDirective p)
     (''A value of 100 requires a perfect, photorealistic match to the original '' @ subjectNoun p @ ''.'')\<close>
proof -
  have \<open>\<exists>a b. subjectInfluenceDirective p =
      a @ (''A value of 100 requires a perfect, photorealistic match to the original '' @ subjectNoun p @ ''.'') @ b\<close>
    unfolding subjectInfluenceDirective_def
    by (rule exI [of _ \<open>''- **CRITICAL - SUBJECT INFLUENCE '' @ showInt (subjectInfluence p) @ ''/100:** You MUST retain the subject's identity. ''\<close>]) auto
  then show ?thesis using includes_str_iff by blast
qed

lemma directive_has_reinterpretation_sentence:
  \<open>includes_str (subjectInfluenceDirective p)
     (''A lower value allows for more artistic interpretation of their features to better match the art style, while still ensuring the '' @ subjectNoun p @ '' is/are recognizable.'')\<close>
proof -
  have \<open>\<exists>a b. subjectInfluenceDirective p =
      a @ (''A lower value allows for more artistic interpretation of their features to better match the art style, while still ensuring the '' @ subjectNoun p @ '' is/are recognizable.'') @ b\<close>
    unfolding subjectInfluenceDirective_def
    by (rule exI [of _ \<open>''- **CRITICAL - SUBJECT INFLUENCE '' @ showInt (subjectInfluence p) @ ''/100:** You MUST retain the subject's identity. A value of 100 requires a perfect, photorealistic match to the original '' @ subjectNoun p @ ''. ''\<close>]) auto
  then show ?thesis using includes_str_iff by blast
qed

lemma subject_influence_sentences:
  assumes \<open>artReferenceImage p = Some a\<close>
    and \<open>\<not> includes_str (stylePrompt p) ''Flyer Design''\<close>
    and \<open>\<not> includes_str (stylePrompt p) ''Thumbnail Design''\<close>
  shows \<open>includes_str (synthesizedPrompt p)
           (''SUBJECT INFLUENCE '' @ showInt (subjectInfluence p) @ ''/100'') \<and>
         includes_str (synthesizedPrompt p)
           (''A value of 100 requires a perfect, photorealistic match to the original '' @ subjectNoun p @ ''.'') \<and>
         includes_str (synthesizedPrompt p)
           (''A lower value allows for more artistic interpretation of their features to better match the art style, while still ensuring the '' @ subjectNoun p @ '' is/are recognizable.'')\<close>
  using subjectInfluenceDirective_in_prompt [OF assms directive_has_figure]
        subjectInfluenceDirective_in_prompt [OF assms directive_has_match_sentence]
        subjectInfluenceDirective_in_prompt [OF assms directive_has_reinterpretation_sentence]
  by simp

lemma flyer_prompt_lacks_match:
  \<open>\<not> includes_str (flyerInstructions ((defaultParams src)\<lparr>stylePrompt := ''Flyer Design'',
        artReferenceImage := Some art, subjectInfluence := 100\<rparr>)) ''photorealistic match''\<close>
  by (simp add: flyerInstructions_def defaultParams_def)

text \<open>
  C6 (amended). For composite-generate with an art reference image present and the
  sectioned template in use (the style effects name neither \<open>Flyer Design\<close> nor
  \<open>Thumbnail Design\<close>), the prompt carries the figure \<open>SUBJECT INFLUENCE n/100\<close> for the
  given value \<open>n\<close> and, whatever \<open>n\<close> is, both the sentence that a value of 100 requires a
  perfect, photorealistic match and the sentence that a lower value allows artistic
  interpretation while the subject stays recognizable. So the prompt for 100 contains
  the first, the prompt for 40 contains the second, and the two always occur together.
\<close>

theorem subject_influence_phrasings_together:
  assumes \<open>artReferenceImage p = Some a\<close>
    and \<open>\<not> includes_str (stylePrompt p) ''Flyer Design''\<close>
    and \<open>\<not> includes_str (stylePrompt p) ''Thumbnail Design''\<close>
  shows \<open>includes_str (synthesizedPrompt p)
           (''SUBJECT INFLUENCE '' @ showInt (subjectInfluence p) @ ''/100'') \<and>
         includes_str (synthesizedPrompt p)
           (''A value of 100 requires a perfect, photorealistic match to the original '' @ subjectNoun p @ ''.'') \<and>
         includes_str (synthesizedPrompt p)
           (''A lower value allows for more artistic interpretation of their features to better match the art style, while still ensuring the '' @ subjectNoun p @ '' is/are recognizable.'')\<close>
  using assms by (rule subject_influence_sentences)

theorem subject_influence_phrasings_together_witness:
  \<open>includes_str
     (synthesizedPrompt ((defaultParams \<lparr>base64 = ''AAAA'', mimeType = ''image/png'', previewUrl = []\<rparr>)
        \<lparr>artReferenceImage := Some \<lparr>base64 = ''BBBB'', mimeType = ''image/jpeg'', previewUrl = []\<rparr>,
         subjectInfluence := 40\<rparr>))
     ''SUBJECT INFLUENCE 40/100'' \<and>
   includes_str
     (synthesizedPrompt ((defaultParams \<lparr>base64 = ''AAAA'', mimeType = ''image/png'', previewUrl = []\<rparr>)
        \<lparr>artReferenceImage := Some \<lparr>base64 = ''BBBB'', mimeType = ''image/jpeg'', previewUrl = []\<rparr>,
         subjectInfluence := 40\<rparr>))
     ''A lower value allows for more artistic interpretation of their features to better match the art style, while still ensuring the person is/are recognizable.''\<close>
  using subject_influence_phrasings_together
    [of \<open>(defaultParams \<lparr>base64 = ''AAAA'', mimeType = ''image/png'', previewUrl = []\<rparr>)
        \<lparr>artReferenceImage := Some \<lparr>base64 = ''BBBB'', mimeType = ''image/jpeg'', previewUrl = []\<rparr>,
         subjectInfluence := 40\<rparr>\<close>
        \<open>\<lparr>base64 = ''BBBB'', mimeType = ''image/jpeg'', previewUrl = []\<rparr>\<close>]
  by (simp add: defaultParams_def subjectNoun_def showInt_def showNat.simps digitChar_def)

text \<open>
  C6 as stated fails: at subject-influence 100 the prompt contains both phrasings, and
  under the flyer template, art reference present, it contains neither.
\<close>

theorem subject_influence_phrasings_counterexample:
  \<open>includes_str
     (synthesizedPrompt ((defaultParams \<lparr>base64 = ''AAAA'', mimeType = ''image/png'', previewUrl = []\<rparr>)
        \<lparr>artReferenceImage := Some \<lparr>base64 = ''BBBB'', mimeType = ''image/jpeg'', previewUrl = []\<rparr>,
         subjectInfluence := 100\<rparr>))
     ''A value of 100 requires a perfect, photorealistic match to the original person.'' \<and>
   includes_str
     (synthesizedPrompt ((defaultParams \<lparr>base64 = ''AAAA'', mimeType = ''image/png'', previewUrl = []\<rparr>)
        \<lparr>artReferenceImage := Some \<lparr>base64 = ''BBBB'', mimeType = ''image/jpeg'', previewUrl = []\<rparr>,
         subjectInfluence := 100\<rparr>))
     ''A lower value allows for more artistic interpretation of their features to better match the art style, while still ensuring the person is/are recognizable.'' \<and>
   \<not> includes_str
     (synthesizedPrompt ((defaultParams \<lparr>base64 = ''AAAA'', mimeType = ''image/png'', previewUrl = []\<rparr>)
        \<lparr>stylePrompt := ''Flyer Design'',
         artReferenceImage := Some \<lparr>base64 = ''BBBB'', mimeType = ''image/jpeg'', previewUrl = []\<rparr>,
         subjectInfluence := 100\<rparr>))
     ''photorealistic match''\<close>
proof -
  let ?src = \<open>\<lparr>base64 = ''AAAA'', mimeType = ''image/png'', previewUrl = []\<rparr>\<close>
  let ?art = \<open>\<lparr>base64 = ''BBBB'', mimeType = ''image/jpeg'', previewUrl = []\<rparr>\<close>
  let ?p = \<open>(defaultParams ?src)\<lparr>artReferenceImage := Some ?art, subjectInfluence := 100\<rparr>\<close>
  let ?f = \<open>(defaultParams ?src)\<lparr>stylePrompt := ''Flyer Design'',
              artReferenceImage := Some ?art, subjectInfluence := 100\<rparr>\<close>
  have art: \<open>artReferenceImage ?p = Some ?art\<close>
    and plain: \<open>\<not> includes_str (stylePrompt ?p) ''Flyer Design''\<close>
      \<open>\<not> includes_str (stylePrompt ?p) ''Thumbnail Design''\<close>
    and noun: \<open>subjectNoun ?p = ''person''\<close>
    by (simp_all add: defaultParams_def subjectNoun_def)
  have both: \<open>includes_str (synthesizedPrompt ?p)
        ''A value of 100 requires a perfect, photorealistic match to the original person.'' \<and>
      includes_str (synthesizedPrompt ?p)
        ''A lower value allows for more artistic interpretation of their features to better match the art style, while still ensuring the person is/are recognizable.''\<close>
    using subject_influence_sentences [OF art plain] by (simp add: noun)
  have \<open>synthesizedPrompt ?f = flyerInstructions ?f\<close>
    by (simp add: synthesizedPrompt_def generateStudioPhoto_parts_def defaultParams_def)
  then have \<open>\<not> includes_str (synthesizedPrompt ?f) ''photorealistic match''\<close>
    using flyer_prompt_lacks_match [where src = ?src and art = ?art] by simp
  with both show ?thesis by simp
qed

text \<open>
  C7 (amended). For a composite-generate request carrying only a subject image, every
  other field at its default, the prompt consists of the master instruction, the
  subject and identity section, the camera and lens settings section, which states the
  colour temperature and nothing else (\<open>5500K\<close>, neutral daylight), and the final output
  requirement; there is no art style, composition or final stylization section. The
  parts are the prompt, the subject label and the subject image: no other image block.
\<close>

theorem default_request_sections:
  \<open>instructionSet (defaultParams src) =
     [masterPrompt,
      ''\<newline>**1. SUBJECT & IDENTITY (PARAMOUNT PRIORITY)**\<newline>- The person in the [Subject] image is/are your primary subject.\<newline>- **CRITICAL:** You MUST perfectly preserve their facial features, structure, and identity. The final image must be unmistakably the same person.'',
      ''\<newline>**5. CAMERA & LENS SETTINGS**\<newline>- **CRITICAL:** Simulate a professional camera with these settings: Color Temperature: 5500K (neutral daylight light).'',
      finalOutputRequirements] \<and>
   generateStudioPhoto_parts (defaultParams src) =
     [TextPart (join ''\<newline>'' (instructionSet (defaultParams src))),
      TextPart ''This is the [Subject] image:'',
      fileToGenerativePart src]\<close>
  using instructionSet_default [of src] parts_default [of src] by simp

text \<open>
  C7 as stated fails: the colour temperature is always pushed to \<open>cameraDetails\<close>, so
  the default request has four sections, the camera and lens settings among them.
\<close>

theorem default_request_sections_counterexample:
  \<open>length (instructionSet (defaultParams \<lparr>base64 = ''AAAA'', mimeType = ''image/png'', previewUrl = []\<rparr>)) = 4 \<and>
   includes_str (synthesizedPrompt (defaultParams \<lparr>base64 = ''AAAA'', mimeType = ''image/png'', previewUrl = []\<rparr>))
     ''**5. CAMERA & LENS SETTINGS**''\<close>
proof -
  let ?p = \<open>defaultParams \<lparr>base64 = ''AAAA'', mimeType = ''image/png'', previewUrl = []\<rparr>\<close>
  have cam: \<open>includes_str ''\<newline>**5. CAMERA & LENS SETTINGS**\<newline>- **CRITICAL:** Simulate a professional camera with these settings: Color Temperature: 5500K (neutral daylight light).''
      ''**5. CAMERA & LENS SETTINGS**''\<close>
    by simp
  have \<open>includes_str (join ''\<newline>'' (instructionSet ?p)) ''**5. CAMERA & LENS SETTINGS**''\<close>
    by (rule includes_str_join [OF _ cam]) (simp add: instructionSet_default)
  moreover have \<open>synthesizedPrompt ?p = join ''\<newline>'' (instructionSet ?p)\<close>
    by (simp add: synthesizedPrompt_def parts_default)
  ultimately show ?thesis
    by (simp add: instructionSet_default)
qed

lemma imagesFrom_imageBlock:
  \<open>imagesFrom prev (imageBlock label img @ rest) =
     (case img of
        None \<Rightarrow> imagesFrom prev rest
      | Some file \<Rightarrow> (Some label, fileToGenerativePart file) # imagesFrom None rest)\<close>
  by (simp add: imageBlock_def fileToGenerativePart_def split: option.splits)

lemma imagesFrom_imageBlock_last:
  \<open>imagesFrom None (imageBlock label img) = labelledImage label img\<close>
  by (simp add: imageBlock_def labelledImage_def fileToGenerativePart_def split: option.splits)

lemma labelledImages_generateStudioPhoto:
  \<open>labelledImages (generateStudioPhoto_parts p) =
     (if includes_str (stylePrompt p) ''Flyer Design''
      then [(Some (flyerInstructions p), fileToGenerativePart (sourceImage p))]
      else if includes_str (stylePrompt p) ''Thumbnail Design''
      then [(Some (thumbnailInstructions p), fileToGenerativePart (sourceImage p))]
      else (Some ''This is the [Subject] image:'', fileToGenerativePart (sourceImage p))
           # labelledImage ''This is the [Face Reference] image:'' (faceReferenceImage p)
           @ labelledImage ''This is the [Art Style] image:'' (artReferenceImage p)
           @ labelledImage ''This is the [Outfit] image:'' (dressImage p)
           @ labelledImage ''This is the [Object] image:'' (objectImage p)
           @ (if backgroundMode p = upload
              then labelledImage ''This is the [Background] image:'' (backgroundImage p)
              else []))\<close>
  by (simp add: labelledImages_def generateStudioPhoto_parts_def fileToGenerativePart_def
        imagesFrom_imageBlock imagesFrom_imageBlock_last labelledImage_def
      split: option.splits)

lemma labelledImage_has_label: \<open>(None, x) \<notin> set (labelledImage label img)\<close>
  by (cases img) (simp_all add: labelledImage_def)

lemma labelled_generateStudioPhoto: \<open>labelled (generateStudioPhoto_parts p)\<close>
  by (auto simp add: labelled_def labelledImages_generateStudioPhoto labelledImage_has_label)

lemma includes_str_prefix: \<open>includes_str s n \<Longrightarrow> includes_str (s @ b) n\<close>
  using includes_str_append [of s n \<open>[]\<close> b] by simp

lemma includes_str_suffix: \<open>includes_str s n \<Longrightarrow> includes_str (a @ s) n\<close>
  using includes_str_append [of s n a \<open>[]\<close>] by simp

lemma flyerInstructions_names_image:
  \<open>includes_str (flyerInstructions p) ''The provided image contains the main subject(s).''\<close>
  unfolding flyerInstructions_def by (rule includes_str_prefix) simp

lemma thumbnailInstructions_names_image:
  \<open>includes_str (thumbnailInstructions p) ''The provided image is the main subject(s).''\<close>
  unfolding thumbnailInstructions_def by (rule includes_str_prefix) simp

lemma describeImage_parts_shape:
  \<open>\<exists>instructions.
     describeImage_parts img = [TextPart instructions, fileToGenerativePart img] \<and>
     includes_str instructions ''describe the person or people in this photo''\<close>
  unfolding describeImage_parts_def by (intro exI conjI, rule refl) simp

lemma manipulateScene_parts_shape:
  \<open>\<exists>instructions.
     manipulateScene_parts sceneImg scenePrompt = [TextPart instructions, fileToGenerativePart sceneImg] \<and>
     includes_str instructions ''**Source Image:** The first image is the original scene.''\<close>
  unfolding manipulateScene_parts_def
  by (intro exI conjI, rule refl) (rule includes_str_prefix, simp)

lemma inpaintImage_parts_shape:
  \<open>\<exists>instructions.
     inpaintImage_parts sourceImg maskImg prompt =
       [TextPart instructions, fileToGenerativePart sourceImg, fileToGenerativePart maskImg] \<and>
     includes_str instructions ''The user has provided an image, a mask, and a prompt.'' \<and>
     includes_str instructions ''The masked area is indicated in the second image.''\<close>
  unfolding inpaintImage_parts_def
  by (intro exI conjI, rule refl)
     (rule includes_str_prefix, simp, rule includes_str_suffix, rule includes_str_suffix, simp)

lemma swapFace_parts_shape:
  \<open>\<exists>instructions.
     swapFace_parts targetImg faceImg =
       [TextPart instructions, fileToGenerativePart targetImg, fileToGenerativePart faceImg] \<and>
     includes_str instructions ''**TARGET IMAGE (First Image):**'' \<and>
     includes_str instructions ''**FACE SOURCE IMAGE (Second Image):**''\<close>
  unfolding swapFace_parts_def by (intro exI conjI, rule refl) simp_all

lemma labelledImages_single:
  \<open>labelledImages [TextPart t, fileToGenerativePart a] = [(Some t, fileToGenerativePart a)]\<close>
  by (simp add: labelledImages_def fileToGenerativePart_def)

lemma labelledImages_pair:
  \<open>labelledImages [TextPart t, fileToGenerativePart a, fileToGenerativePart b] =
     [(Some t, fileToGenerativePart a), (None, fileToGenerativePart b)]\<close>
  by (simp add: labelledImages_def fileToGenerativePart_def)

text \<open>
  C8 (amended). In the prompts of composite-generate, analyze-reference, describe and
  reperspective every image block is immediately preceded by a text block, and that
  text names the image that follows it: the label \<open>This is the [...] image:\<close> followed by
  the image of that role in the sectioned template and in analyze-reference, the
  instruction text itself, which speaks of the one image the prompt carries, in the
  flyer, thumbnail, describe and reperspective prompts. The inpaint prompt is the
  instructions, the source image, the mask, and the face-swap prompt is the
  instructions, the target image, the face source: only the first image is preceded by
  a text block, the second image directly follows the first, and its role is given by
  position in the instructions (\<open>the second image\<close>, \<open>Second Image\<close>).
\<close>

theorem image_blocks_and_their_labels:
  \<open>labelled (generateStudioPhoto_parts p) \<and>
   labelledImages (generateStudioPhoto_parts p) =
     (if includes_str (stylePrompt p) ''Flyer Design''
      then [(Some (flyerInstructions p), fileToGenerativePart (sourceImage p))]
      else if includes_str (stylePrompt p) ''Thumbnail Design''
      then [(Some (thumbnailInstructions p), fileToGenerativePart (sourceImage p))]
      else (Some ''This is the [Subject] image:'', fileToGenerativePart (sourceImage p))
           # labelledImage ''This is the [Face Reference] image:'' (faceReferenceImage p)
           @ labelledImage ''This is the [Art Style] image:'' (artReferenceImage p)
           @ labelledImage ''This is the [Outfit] image:'' (dressImage p)
           @ labelledImage ''This is the [Object] image:'' (objectImage p)
           @ (if backgroundMode p = upload
              then labelledImage ''This is the [Background] image:'' (backgroundImage p)
              else [])) \<and>
   includes_str (flyerInstructions p) ''The provided image contains the main subject(s).'' \<and>
   includes_str (thumbnailInstructions p) ''The provided image is the main subject(s).'' \<and>
   labelledImages (analyzeArtReference_parts subjectImg artImg) =
     [(Some ''This is the [SUBJECT IMAGE]:'', fileToGenerativePart subjectImg),
      (Some ''This is the [ART STYLE IMAGE]:'', fileToGenerativePart artImg)] \<and>
   (\<exists>instructions.
      describeImage_parts img = [TextPart instructions, fileToGenerativePart img] \<and>
      labelledImages (describeImage_parts img) = [(Some instructions, fileToGenerativePart img)] \<and>
      includes_str instructions ''describe the person or people in this photo'') \<and>
   (\<exists>instructions.
      manipulateScene_parts sceneImg scenePrompt =
        [TextPart instructions, fileToGenerativePart sceneImg] \<and>
      labelledImages (manipulateScene_parts sceneImg scenePrompt) =
        [(Some instructions, fileToGenerativePart sceneImg)] \<and>
      includes_str instructions ''**Source Image:** The first image is the original scene.'') \<and>
   (\<exists>instructions.
      inpaintImage_parts sourceImg maskImg prompt =
        [TextPart instructions, fileToGenerativePart sourceImg, fileToGenerativePart maskImg] \<and>
      labelledImages (inpaintImage_parts sourceImg maskImg prompt) =
        [(Some instructions, fileToGenerativePart sourceImg), (None, fileToGenerativePart maskImg)] \<and>
      includes_str instructions ''The user has provided an image, a mask, and a prompt.'' \<and>
      includes_str instructions ''The masked area is indicated in the second image.'') \<and>
   (\<exists>instructions.
      swapFace_parts targetImg faceImg =
        [TextPart instructions, fileToGenerativePart targetImg, fileToGenerativePart faceImg] \<and>
      labelledImages (swapFace_parts targetImg faceImg) =
        [(Some instructions, fileToGenerativePart targetImg), (None, fileToGenerativePart faceImg)] \<and>
      includes_str instructions ''**TARGET IMAGE (First Image):**'' \<and>
      includes_str instructions ''**FACE SOURCE IMAGE (Second Image):**'')\<close>
proof -
  obtain d where d: \<open>describeImage_parts img = [TextPart d, fileToGenerativePart img]\<close>
      \<open>includes_str d ''describe the person or people in this photo''\<close>
    using describeImage_parts_shape by blast
  obtain m where m: \<open>manipulateScene_parts sceneImg scenePrompt =
        [TextPart m, fileToGenerativePart sceneImg]\<close>
      \<open>includes_str m ''**Source Image:** The first image is the original scene.''\<close>
    using manipulateScene_parts_shape by blast
  obtain i where i: \<open>inpaintImage_parts sourceImg maskImg prompt =
        [TextPart i, fileToGenerativePart sourceImg, fileToGenerativePart maskImg]\<close>
      \<open>includes_str i ''The user has provided an image, a mask, and a prompt.''\<close>
      \<open>includes_str i ''The masked area is indicated in the second image.''\<close>
    using inpaintImage_parts_shape by blast
  obtain f where f: \<open>swapFace_parts targetImg faceImg =
        [TextPart f, fileToGenerativePart targetImg, fileToGenerativePart faceImg]\<close>
      \<open>includes_str f ''**TARGET IMAGE (First Image):**''\<close>
      \<open>includes_str f ''**FACE SOURCE IMAGE (Second Image):**''\<close>
    using swapFace_parts_shape by blast
  have analyze: \<open>labelledImages (analyzeArtReference_parts subjectImg artImg) =
     [(Some ''This is the [SUBJECT IMAGE]:'', fileToGenerativePart subjectImg),
      (Some ''This is the [ART STYLE IMAGE]:'', fileToGenerativePart artImg)]\<close>
    by (simp add: labelledImages_def analyzeArtReference_parts_def fileToGenerativePart_def)
  have dl: \<open>labelledImages (describeImage_parts img) = [(Some d, fileToGenerativePart img)]\<close>
    unfolding d(1) by (rule labelledImages_single)
  have ml: \<open>labelledImages (manipulateScene_parts sceneImg scenePrompt) =
      [(Some m, fileToGenerativePart sceneImg)]\<close>
    unfolding m(1) by (rule labelledImages_single)
  have il: \<open>labelledImages (inpaintImage_parts sourceImg maskImg prompt) =
      [(Some i, fileToGenerativePart sourceImg), (None, fileToGenerativePart maskImg)]\<close>
    unfolding i(1) by (rule labelledImages_pair)
  have fl: \<open>labelledImages (swapFace_parts targetImg faceImg) =
      [(Some f, fileToGenerativePart targetImg), (None, fileToGenerativePart faceImg)]\<close>
    unfolding f(1) by (rule labelledImages_pair)
  show ?thesis
    using labelled_generateStudioPhoto [of p] labelledImages_generateStudioPhoto [of p]
      flyerInstructions_names_image [of p] thumbnailInstructions_names_image [of p]
      analyze d dl m ml i il f fl
    by (intro conjI exI) assumption+
qed

text \<open>
  C8 as stated fails for the second image of the inpaint prompt and of the face-swap
  prompt: the block before it is an image, not a text.
\<close>

theorem second_image_unlabelled_counterexample:
  \<open>\<not> labelled (inpaintImage_parts \<lparr>base64 = ''AAAA'', mimeType = ''image/png'', previewUrl = []\<rparr>
                   \<lparr>base64 = ''MMMM'', mimeType = ''image/png'', previewUrl = []\<rparr> ''a red hat'') \<and>
   \<not> labelled (swapFace_parts \<lparr>base64 = ''AAAA'', mimeType = ''image/png'', previewUrl = []\<rparr>
                   \<lparr>base64 = ''FFFF'', mimeType = ''image/png'', previewUrl = []\<rparr>)\<close>
  by (simp add: labelled_def labelledImages_def inpaintImage_parts_def swapFace_parts_def
        fileToGenerativePart_def)

end
